theory Spec2Isabelle
  imports Main "HOL-Library.AList" "HOL-Library.Sublist"
begin

section \<open>fetch\_icebridge\_data.py: a shallow embedding\<close>

text \<open>
  The program is a Python 2 script. Its functions are embedded as HOL functions over
  explicit values: Python \<open>int\<close> is \<open>int\<close>, \<open>str\<close> is \<open>string\<close>, \<open>None\<close>-able
  options are \<open>option\<close>, an exception is the \<open>Inl\<close> of a sum. The file system, the
  network and the helpers of the modules \<open>icebridge_common\<close> and \<open>asp_system_utils\<close>
  (which are not part of the file) are parameters, collected in the record \<open>env\<close>.
  Effects are threaded through a \<open>world\<close>: the files on disk and a trace of the
  events the script causes, in the order it causes them.
\<close>

subsection \<open>Python strings and integers\<close>

definition digit_char :: "nat \<Rightarrow> char" where
  "digit_char d = ''0123456789'' ! d"

text \<open>\<open>str(n)\<close> for a non-negative integer: its decimal digits.\<close>

fun str_nat :: "nat \<Rightarrow> string" where
  "str_nat n = (if n < 10 then [digit_char n] else str_nat (n div 10) @ [digit_char (n mod 10)])"

declare str_nat.simps [simp del]

text \<open>\<open>str(i)\<close> for a Python integer.\<close>

definition str :: "int \<Rightarrow> string" where
  "str i = (if i < 0 then CHR ''-'' # str_nat (nat (- i)) else str_nat (nat i))"

text \<open>
  \<open>'%0wd' % i\<close>: the decimal digits, padded on the left with zeros to the width \<open>w\<close>;
  the sign counts for the width and stays in front of the zeros.
\<close>

definition fmt_0d :: "nat \<Rightarrow> int \<Rightarrow> string" where
  "fmt_0d w i = (let s = str i in
     if i < 0 then CHR ''-'' # replicate (w - length s) CHR ''0'' @ tl s
     else replicate (w - length s) CHR ''0'' @ s)"

text \<open>\<open>s.startswith('/')\<close> and \<open>s.endswith('/')\<close>.\<close>

definition starts_with_slash :: "string \<Rightarrow> bool" where
  "starts_with_slash s = (case s of [] \<Rightarrow> False | c # _ \<Rightarrow> c = CHR ''/'')"

definition ends_with_slash :: "string \<Rightarrow> bool" where
  "ends_with_slash s = (s \<noteq> [] \<and> last s = CHR ''/'')"

text \<open>
  \<open>os.path.join(a, *p)\<close> of \<open>posixpath\<close>: an absolute component discards what came
  before it; a separator is inserted unless the path so far is empty or ends in one.
\<close>

definition join_step :: "string \<Rightarrow> string \<Rightarrow> string" where
  "join_step path b =
     (if starts_with_slash b then b
      else if path = [] \<or> ends_with_slash path then path @ b
      else path @ ''/'' @ b)"

definition os_path_join :: "string \<Rightarrow> string list \<Rightarrow> string" where
  "os_path_join a p = foldl join_step a p"

subsection \<open>Exceptions\<close>

datatype exn =
    UnboundLocalError string
  | TypeError
  | ValueError string
  | IndexError
  | IOError string
  | Exception string

subsection \<open>Folder URLs\<close>

text \<open>
  \<open>--site\<close> defaults to \<open>None\<close>, so the site is an option; concatenating \<open>None\<close> to a
  string raises \<open>TypeError\<close>.
\<close>

definition makeYearFolder :: "int \<Rightarrow> string option \<Rightarrow> exn + string" where
  "makeYearFolder year site =
     (case site of
        None \<Rightarrow> Inl TypeError
      | Some s \<Rightarrow> Inr (str year @ ''_'' @ s @ ''_NASA''))"

definition makeDateFolder :: "int \<Rightarrow> int \<Rightarrow> int \<Rightarrow> string \<Rightarrow> string" where
  "makeDateFolder year month day fileType =
     (if fileType = ''image'' then
        (let datePart = fmt_0d 2 month @ fmt_0d 2 day @ fmt_0d 4 year in datePart @ ''_raw'')
      else
        (let datePart = fmt_0d 4 year @ ''.'' @ fmt_0d 2 month @ ''.'' @ fmt_0d 2 day in datePart))"

text \<open>
  The bases of the types other than \<open>image\<close> are assigned by a run of independent
  \<open>if\<close> statements; when none of them fires the name \<open>base\<close> is unbound at its use.
\<close>

definition getFolderUrl :: "int \<Rightarrow> int \<Rightarrow> int \<Rightarrow> string option \<Rightarrow> string \<Rightarrow> exn + string" where
  "getFolderUrl year month day site fileType =
     (if fileType = ''image'' then
        (let base = ''https://n5eil01u.ecs.nsidc.org/ICEBRIDGE_FTP/IODMS0_DMSraw_v01'' in
         case makeYearFolder year site of
           Inl e \<Rightarrow> Inl e
         | Inr yearFolder \<Rightarrow>
             (let dateFolder = makeDateFolder year month day fileType;
                  folderUrl = os_path_join base [yearFolder, dateFolder]
              in Inr folderUrl))
      else
        (let base0 = None;
             base1 = (if fileType = ''ortho''
                      then Some ''https://n5eil01u.ecs.nsidc.org/ICEBRIDGE/IODMS1B.001'' else base0);
             base2 = (if fileType = ''dem''
                      then Some ''https://n5eil01u.ecs.nsidc.org/ICEBRIDGE/IODMS3.001'' else base1);
             base3 = (if fileType = ''lvis''
                      then Some ''https://n5eil01u.ecs.nsidc.org/ICEBRIDGE/ILVIS2.001/'' else base2);
             base4 = (if fileType = ''atm1''
                      then Some ''https://n5eil01u.ecs.nsidc.org/ICEBRIDGE/ILATM1B.001/'' else base3);
             base5 = (if fileType = ''atm2''
                      then Some ''https://n5eil01u.ecs.nsidc.org/ICEBRIDGE/ILATM1B.002/'' else base4);
             dateFolder = makeDateFolder year month day fileType
         in case base5 of
              None \<Rightarrow> Inl (UnboundLocalError ''base'')
            | Some base \<Rightarrow> Inr (os_path_join base [dateFolder])))"

subsection \<open>Regular expressions\<close>

text \<open>
  The six patterns of \<open>fetchAndParseIndexFile\<close> use a small part of Python's \<open>re\<close>
  syntax: literal characters, the dot, a character class of characters and ranges,
  \<open>\w\<close>, and the greedy postfix operators \<open>*\<close> and \<open>+\<close> on one of these. This part is
  modelled as Python matches it on byte strings under \<open>re.IGNORECASE\<close>.
\<close>

datatype atom = Lit char | AnyChar | WordChar | Cls "(char \<times> char) list"

datatype item = One atom | Star atom | Plus atom

datatype tok = TAtom atom | TStar | TPlus

definition backslash :: char where
  "backslash = CHR 0x5C"

text \<open>
  The first argument is \<open>None\<close> outside a character class and holds the ranges read
  so far inside one.
\<close>

fun re_tokens :: "(char \<times> char) list option \<Rightarrow> string \<Rightarrow> tok list" where
  "re_tokens None [] = []"
| "re_tokens (Some rs) [] = []"
| "re_tokens None (c # cs) =
     (if c = CHR ''['' then re_tokens (Some []) cs
      else if c = CHR ''*'' then TStar # re_tokens None cs
      else if c = CHR ''+'' then TPlus # re_tokens None cs
      else if c = CHR ''.'' then TAtom AnyChar # re_tokens None cs
      else if c = backslash then
        (case cs of
           [] \<Rightarrow> []
         | d # ds \<Rightarrow> (if d = CHR ''w'' then TAtom WordChar else TAtom (Lit d)) # re_tokens None ds)
      else TAtom (Lit c) # re_tokens None cs)"
| "re_tokens (Some rs) (c # cs) =
     (if c = CHR '']'' then TAtom (Cls rs) # re_tokens None cs
      else
        (case cs of
           d # e # es \<Rightarrow>
             (if d = CHR ''-'' \<and> e \<noteq> CHR '']'' then re_tokens (Some (rs @ [(c, e)])) es
              else re_tokens (Some (rs @ [(c, c)])) cs)
         | _ \<Rightarrow> re_tokens (Some (rs @ [(c, c)])) cs))"

fun re_items :: "tok list \<Rightarrow> item list" where
  "re_items (TAtom a # TStar # ts) = Star a # re_items ts"
| "re_items (TAtom a # TPlus # ts) = Plus a # re_items ts"
| "re_items (TAtom a # ts) = One a # re_items ts"
| "re_items (_ # ts) = re_items ts"
| "re_items [] = []"

definition re_compile :: "string \<Rightarrow> item list" where
  "re_compile pat = re_items (re_tokens None pat)"

text \<open>ASCII case folding, as \<open>re.IGNORECASE\<close> does on byte strings.\<close>

definition is_upper :: "char \<Rightarrow> bool" where
  "is_upper c = (65 \<le> (of_char c :: nat) \<and> (of_char c :: nat) \<le> 90)"

definition is_lower :: "char \<Rightarrow> bool" where
  "is_lower c = (97 \<le> (of_char c :: nat) \<and> (of_char c :: nat) \<le> 122)"

definition is_digit :: "char \<Rightarrow> bool" where
  "is_digit c = (48 \<le> (of_char c :: nat) \<and> (of_char c :: nat) \<le> 57)"

definition to_lower :: "char \<Rightarrow> char" where
  "to_lower c = (if is_upper c then char_of ((of_char c :: nat) + 32) else c)"

definition to_upper :: "char \<Rightarrow> char" where
  "to_upper c = (if is_lower c then char_of ((of_char c :: nat) - 32) else c)"

definition lower :: "string \<Rightarrow> string" where
  "lower s = map to_lower s"

definition in_range :: "char \<times> char \<Rightarrow> char \<Rightarrow> bool" where
  "in_range r c = ((of_char (fst r) :: nat) \<le> of_char c \<and> (of_char c :: nat) \<le> of_char (snd r))"

fun atom_ok :: "atom \<Rightarrow> char \<Rightarrow> bool" where
  "atom_ok (Lit c) d = (to_lower c = to_lower d)"
| "atom_ok AnyChar d = (d \<noteq> CHR 0x0A)"
| "atom_ok WordChar d = (is_upper d \<or> is_lower d \<or> is_digit d \<or> d = CHR ''_'')"
| "atom_ok (Cls rs) d =
     list_ex (\<lambda>r. in_range r d \<or> in_range r (to_lower d) \<or> in_range r (to_upper d)) rs"

text \<open>
  \<open>re_match r s\<close> is the length of the match of \<open>r\<close> at the start of \<open>s\<close> that a
  backtracking matcher finds first: a starred atom takes as many characters as it
  can and gives one back at a time while the rest of the pattern fails.
\<close>

fun re_match :: "item list \<Rightarrow> string \<Rightarrow> nat option" where
  "re_match [] s = Some 0"
| "re_match (One a # r) [] = None"
| "re_match (One a # r) (c # cs) =
     (if atom_ok a c then map_option Suc (re_match r cs) else None)"
| "re_match (Plus a # r) [] = None"
| "re_match (Plus a # r) (c # cs) =
     (if atom_ok a c then map_option Suc (re_match (Star a # r) cs) else None)"
| "re_match (Star a # r) [] = re_match r []"
| "re_match (Star a # r) (c # cs) =
     (if atom_ok a c then
        (case re_match (Star a # r) cs of
           Some n \<Rightarrow> Some (Suc n)
         | None \<Rightarrow> re_match r (c # cs))
      else re_match r (c # cs))"

text \<open>
  \<open>re.findall\<close> for a pattern without groups: the matches from left to right, each
  search starting where the previous match ended (one character further after an
  empty match).
\<close>

function findall_items :: "item list \<Rightarrow> string \<Rightarrow> string list" where
  "findall_items r [] = (case re_match r [] of None \<Rightarrow> [] | Some n \<Rightarrow> [[]])"
| "findall_items r (c # cs) =
     (case re_match r (c # cs) of
        None \<Rightarrow> findall_items r cs
      | Some n \<Rightarrow>
          take n (c # cs) #
            (if n = 0 then findall_items r cs else findall_items r (drop n (c # cs))))"
  by pat_completeness auto
termination
  by (relation "measure (\<lambda>(r, s). length s)") auto

definition re_findall :: "string \<Rightarrow> string \<Rightarrow> string list" where
  "re_findall pat s = findall_items (re_compile pat) s"

subsection \<open>The world: files, the network, the absent modules\<close>

text \<open>
  A file system maps a path to the contents of the file there; directories are not
  modelled, and every path is taken to be writable.
\<close>

type_synonym fs = "string \<Rightarrow> string option"

datatype event =
    HttpHead string
  | CurlIndex string string
  | ReadFile string
  | WriteFile string
  | RemoveFile string
  | ShellRm string
  | LogCmd "string list"
  | Popen string "string list"

text \<open>
  \<open>HttpHead url\<close>: a HEAD request for the URL. \<open>CurlIndex url path\<close>: the shell
  command \<open>curl ... url > path\<close>. \<open>ReadFile\<close> and \<open>WriteFile\<close>: an \<open>open\<close> of the
  path for reading and for writing. \<open>RemoveFile path\<close>: \<open>os.remove(path)\<close>.
  \<open>ShellRm s\<close>: \<open>os.system('rm -f ' + s)\<close>, where the shell reads the string \<open>s\<close>.
  \<open>LogCmd urls\<close>: a download command with one \<open>-O url\<close> for each of the URLs is
  logged. \<open>Popen cwd urls\<close>: that command is run in the directory \<open>cwd\<close>.
\<close>

record world =
  files :: fs
  trace :: "event list"

text \<open>
  What the script takes from outside its file. \<open>headStatus url\<close> is the status of the
  response to a HEAD request for \<open>url\<close>; \<open>curlIndex url\<close> is what \<open>curl\<close> prints for the
  folder URL; \<open>curlFiles cwd urls\<close> is what running a download command does to the
  files; \<open>shellRm s\<close> is what the shell command \<open>rm -f\<close> followed by the string \<open>s\<close>
  does to the files: the script does not quote the string, so the shell splits it
  into words and expands it, and the file at the path \<open>s\<close> need not be the one
  removed. The next five are the functions of \<open>icebridge_common\<close> the script calls
  (\<open>isValidImage\<close> is only called on a file that exists, and is given its path and
  contents); \<open>home\<close> is the expansion of \<open>~\<close>. The script finds \<open>curl\<close> with
  \<open>asp_system_utils.which\<close>, which is taken to succeed.
\<close>

record env =
  headStatus :: "string \<Rightarrow> int"
  curlIndex :: "string \<Rightarrow> string"
  curlFiles :: "string \<Rightarrow> string list \<Rightarrow> fs \<Rightarrow> fs"
  shellRm :: "string \<Rightarrow> fs \<Rightarrow> fs"
  getFrameNumberFromFilename2 :: "string \<Rightarrow> exn + int"
  hasImageExtension :: "string \<Rightarrow> bool"
  isValidImage :: "string \<Rightarrow> string \<Rightarrow> bool"
  getLargestFrame :: int
  getSmallestFrame :: int
  home :: string

definition log_event :: "event \<Rightarrow> world \<Rightarrow> world" where
  "log_event e w = w\<lparr>trace := trace w @ [e]\<rparr>"

definition os_remove :: "string \<Rightarrow> world \<Rightarrow> world" where
  "os_remove path w = log_event (RemoveFile path) (w\<lparr>files := (files w)(path := None)\<rparr>)"

definition system_rm :: "env \<Rightarrow> string \<Rightarrow> world \<Rightarrow> world" where
  "system_rm env s w = log_event (ShellRm s) (w\<lparr>files := shellRm env s (files w)\<rparr>)"

definition os_path_exists :: "fs \<Rightarrow> string \<Rightarrow> bool" where
  "os_path_exists f path = (f path \<noteq> None)"

subsection \<open>checkIfUrlExists and fileExists\<close>

definition checkIfUrlExists :: "env \<Rightarrow> string \<Rightarrow> world \<Rightarrow> bool \<times> world" where
  "checkIfUrlExists env url w =
     (let status = headStatus env url;
          w1 = log_event (HttpHead url) w
      in ((status = 403) \<or> (status = 301), w1))"

definition fileExists :: "fs \<Rightarrow> string \<Rightarrow> bool" where
  "fileExists f path = (case f path of None \<Rightarrow> False | Some c \<Rightarrow> 0 < length c)"

definition validImageAt :: "env \<Rightarrow> fs \<Rightarrow> string \<Rightarrow> bool" where
  "validImageAt env f path = (case f path of None \<Rightarrow> False | Some c \<Rightarrow> isValidImage env path c)"

subsection \<open>fetchAndParseIndexFile\<close>

definition newline :: char where
  "newline = CHR 0x0A"

text \<open>
  The six \<open>if\<close> statements that choose the pattern, in the order of the source; the
  list stays empty when none fires.
\<close>

definition extractFileList :: "string \<Rightarrow> string \<Rightarrow> string list" where
  "extractFileList fileType indexText =
     (let fileList0 = [];
          fileList1 = (if fileType = ''image''
                       then re_findall ''>[0-9_]*.JPG'' indexText else fileList0);
          fileList2 = (if fileType = ''ortho''
                       then re_findall (''>DMS'' @ [backslash] @ ''w*.tif<'') indexText else fileList1);
          fileList3 = (if fileType = ''dem''
                       then re_findall (''>IODMS'' @ [backslash] @ ''w*DEM.tif'') indexText else fileList2);
          fileList4 = (if fileType = ''lvis''
                       then re_findall (''>ILVIS'' @ [backslash] @ ''w+.TXT'') indexText else fileList3);
          fileList5 = (if fileType = ''atm1''
                       then re_findall (''>ILATM1B[0-9_]*.ATM4'' @ [backslash] @ ''w+.qi'') indexText
                       else fileList4);
          fileList6 = (if fileType = ''atm2''
                       then re_findall (''>ILATM1B[0-9_]*.ATM'' @ [backslash] @ ''w+.h5'') indexText
                       else fileList5)
      in fileList6)"

text \<open>\<open>filename.replace(">", "")\<close> and then \<open>filename.replace("<", "")\<close>.\<close>

definition cleanName :: "string \<Rightarrow> string" where
  "cleanName filename0 =
     (let filename1 = filter (\<lambda>c. c \<noteq> CHR ''>'') filename0;
          filename2 = filter (\<lambda>c. c \<noteq> CHR ''<'') filename1
      in filename2)"

text \<open>
  The loop that writes the parsed index. The second argument is what has been written
  so far; an exception of \<open>getFrameNumberFromFilename2\<close> ends the loop and leaves
  the lines written before it in the file.
\<close>

fun writeParsed :: "env \<Rightarrow> string \<Rightarrow> string list \<Rightarrow> exn option \<times> string" where
  "writeParsed env written [] = (None, written)"
| "writeParsed env written (filename0 # fileList) =
     (let filename = cleanName filename0 in
      case getFrameNumberFromFilename2 env filename of
        Inl e \<Rightarrow> (Some e, written)
      | Inr frame \<Rightarrow>
          writeParsed env (written @ str frame @ '', '' @ filename @ [newline]) fileList)"

definition fetchAndParseIndexFile ::
    "env \<Rightarrow> string \<Rightarrow> string \<Rightarrow> string \<Rightarrow> string \<Rightarrow> world \<Rightarrow> (exn + unit) \<times> world" where
  "fetchAndParseIndexFile env folderUrl path parsedPath fileType w =
     (let w1 = log_event (CurlIndex folderUrl path)
                 (w\<lparr>files := (files w)(path \<mapsto> curlIndex env folderUrl)\<rparr>)
      in case files w1 path of
           None \<Rightarrow> (Inl (IOError path), w1)
         | Some indexText \<Rightarrow>
             (let w2 = log_event (ReadFile path) w1;
                  fileList = extractFileList fileType indexText;
                  (err, written) = writeParsed env [] fileList;
                  w3 = log_event (WriteFile parsedPath)
                         (w2\<lparr>files := (files w2)(parsedPath \<mapsto> written)\<rparr>)
              in case err of
                   None \<Rightarrow> (Inr (), w3)
                 | Some e \<Rightarrow> (Inl e, w3)))"

subsection \<open>Reading the parsed index\<close>

definition is_space :: "char \<Rightarrow> bool" where
  "is_space c = (c \<in> set [CHR 0x20, CHR 0x09, CHR 0x0A, CHR 0x0B, CHR 0x0C, CHR 0x0D])"

text \<open>\<open>s.strip()\<close>.\<close>

definition strip :: "string \<Rightarrow> string" where
  "strip s = rev (dropWhile is_space (rev (dropWhile is_space s)))"

text \<open>\<open>s.split(sep)\<close> for a separator of one character.\<close>

fun split_on :: "char \<Rightarrow> string \<Rightarrow> string list" where
  "split_on sep [] = [[]]"
| "split_on sep (c # cs) =
     (if c = sep then [] # split_on sep cs
      else (case split_on sep cs of
              [] \<Rightarrow> [[c]]
            | p # ps \<Rightarrow> (c # p) # ps))"

text \<open>The lines a file object yields, without their terminators.\<close>

definition file_lines :: "string \<Rightarrow> string list" where
  "file_lines content =
     (let ps = split_on newline content in if last ps = [] then butlast ps else ps)"

text \<open>
  \<open>int(s)\<close> for a string: surrounding white space, an optional sign, decimal digits.
\<close>

definition digits_val :: "string \<Rightarrow> nat" where
  "digits_val ds = foldl (\<lambda>a c. 10 * a + ((of_char c :: nat) - 48)) 0 ds"

definition int_of_str :: "string \<Rightarrow> exn + int" where
  "int_of_str s =
     (let t = strip s;
          neg = (t \<noteq> [] \<and> hd t = CHR ''-'');
          ds = (if t \<noteq> [] \<and> (hd t = CHR ''-'' \<or> hd t = CHR ''+'') then tl t else t)
      in if ds \<noteq> [] \<and> list_all is_digit ds
         then Inr (if neg then - int (digits_val ds) else int (digits_val ds))
         else Inl (ValueError s))"

text \<open>
  The dictionary \<open>frameDict\<close> is an association list with one entry for each key:
  assigning to a key that is present replaces its value.
\<close>

record table =
  frameDict :: "(int \<times> string) list"
  firstFrame :: int
  lastFrame :: int

definition readLine :: "table \<Rightarrow> string \<Rightarrow> exn + table" where
  "readLine t line =
     (let parts = split_on CHR '','' (strip line) in
      case parts of
        [] \<Rightarrow> Inl IndexError
      | p0 # ps \<Rightarrow>
          (case int_of_str p0 of
             Inl e \<Rightarrow> Inl e
           | Inr frameNumber \<Rightarrow>
               (case ps of
                  [] \<Rightarrow> Inl IndexError
                | p1 # _ \<Rightarrow>
                    Inr \<lparr>frameDict = AList.update frameNumber (strip p1) (frameDict t),
                         firstFrame = (if frameNumber < firstFrame t then frameNumber
                                       else firstFrame t),
                         lastFrame = (if frameNumber > lastFrame t then frameNumber
                                      else lastFrame t)\<rparr>)))"

fun readLines :: "table \<Rightarrow> string list \<Rightarrow> exn + table" where
  "readLines t [] = Inr t"
| "readLines t (line # rest) =
     (case readLine t line of
        Inl e \<Rightarrow> Inl e
      | Inr t' \<Rightarrow> readLines t' rest)"

definition readTable :: "env \<Rightarrow> string \<Rightarrow> world \<Rightarrow> (exn + table) \<times> world" where
  "readTable env parsedIndexPath w =
     (case files w parsedIndexPath of
        None \<Rightarrow> (Inl (IOError parsedIndexPath), w)
      | Some content \<Rightarrow>
          (readLines \<lparr>frameDict = [], firstFrame = getLargestFrame env,
                      lastFrame = getSmallestFrame env\<rparr> (file_lines content),
           log_event (ReadFile parsedIndexPath) w))"

subsection \<open>main\<close>

text \<open>
  The options as \<open>parse_args\<close> returns them, after the \<open>--yyyymmdd\<close> string has been
  split into year, month and day: an option that was not given is \<open>None\<close>. The field
  \<open>ftype\<close> is \<open>options.type\<close>.
\<close>

record options =
  year :: "int option"
  month :: "int option"
  day :: "int option"
  site :: "string option"
  startFrame :: "int option"
  stopFrame :: "int option"
  allFrames :: bool
  dryRun :: bool
  zipIfAllFetched :: bool
  refetchIndex :: bool
  ftype :: string

definition LIDAR_TYPES :: "string list" where
  "LIDAR_TYPES = [''lvis'', ''atm1'', ''atm2'']"

definition KNOWN_TYPES :: "string list" where
  "KNOWN_TYPES = [''image'', ''ortho'', ''dem'', ''lidar'']"

definition MAX_IN_ONE_CALL :: nat where
  "MAX_IN_ONE_CALL = 100"

text \<open>\<open>not x\<close> for an option that is \<open>None\<close> or an integer.\<close>

definition py_not :: "int option \<Rightarrow> bool" where
  "py_not x = (case x of None \<Rightarrow> True | Some i \<Rightarrow> i = 0)"

definition int_of :: "int option \<Rightarrow> int" where
  "int_of x = (case x of None \<Rightarrow> 0 | Some i \<Rightarrow> i)"

text \<open>
  \<open>a <= b\<close> as Python 2 orders \<open>None\<close> and integers: \<open>None\<close> is smaller than every
  integer.
\<close>

definition py_le :: "int option \<Rightarrow> int option \<Rightarrow> bool" where
  "py_le a b =
     (case a of
        None \<Rightarrow> True
      | Some x \<Rightarrow> (case b of None \<Rightarrow> False | Some y \<Rightarrow> x \<le> y))"

text \<open>Lines 204 and 205: the default of \<open>--stop-frame\<close>.\<close>

definition defaultStopFrame :: "options \<Rightarrow> options" where
  "defaultStopFrame opts =
     (if py_not (stopFrame opts) then opts\<lparr>stopFrame := startFrame opts\<rparr> else opts)"

text \<open>Lines 207 to 230: the checks that make \<open>main\<close> return \<open>-1\<close>.\<close>

definition argsRejected :: "env \<Rightarrow> options \<Rightarrow> fs \<Rightarrow> bool" where
  "argsRejected env opts f =
     (if py_not (year opts) \<or> py_not (month opts) \<or> py_not (day opts) then True
      else if ftype opts = ''image'' \<and> \<not> (site opts = Some ''AN'' \<or> site opts = Some ''GR'')
        then True
      else if \<not> (lower (ftype opts) \<in> set KNOWN_TYPES) then True
      else if \<not> (os_path_exists f (home env @ ''/.netrc'')
                  \<and> os_path_exists f (home env @ ''/.urs_cookies'')) then True
      else False)"

text \<open>
  Lines 240 to 253: the loop over \<open>LIDAR_TYPES\<close>. The third argument is the rest of
  the list, the fourth the value of \<open>folderUrl\<close> so far. The result is \<open>None\<close> when
  \<open>main\<close> returns \<open>-1\<close>, and the options and \<open>folderUrl\<close> after the loop otherwise.
\<close>

fun probeLidar ::
    "env \<Rightarrow> options \<Rightarrow> string list \<Rightarrow> string option \<Rightarrow> world
      \<Rightarrow> (exn + (options \<times> string option) option) \<times> world" where
  "probeLidar env opts [] folderUrl0 w = (Inr (Some (opts, folderUrl0)), w)"
| "probeLidar env opts (lidar # rest) folderUrl0 w =
     (case getFolderUrl (int_of (year opts)) (int_of (month opts)) (int_of (day opts))
             (site opts) lidar of
        Inl e \<Rightarrow> (Inl e, w)
      | Inr folderUrl \<Rightarrow>
          (let (found, w1) = checkIfUrlExists env folderUrl w in
           if found then (Inr (Some (opts\<lparr>ftype := lidar\<rparr>, Some folderUrl)), w1)
           else if lidar = last LIDAR_TYPES then
             (if zipIfAllFetched opts then probeLidar env opts rest (Some folderUrl) w1
              else (Inr None, w1))
           else probeLidar env opts rest (Some folderUrl) w1))"

text \<open>Lines 236 to 255: the type and the folder URL the rest of \<open>main\<close> works with.\<close>

definition chooseFolder ::
    "env \<Rightarrow> options \<Rightarrow> world \<Rightarrow> (exn + (options \<times> string) option) \<times> world" where
  "chooseFolder env opts w =
     (if ftype opts = ''lidar'' then
        (case probeLidar env (opts\<lparr>allFrames := True\<rparr>) LIDAR_TYPES None w of
           (Inl e, w1) \<Rightarrow> (Inl e, w1)
         | (Inr None, w1) \<Rightarrow> (Inr None, w1)
         | (Inr (Some (opts1, None)), w1) \<Rightarrow> (Inl (UnboundLocalError ''folderUrl''), w1)
         | (Inr (Some (opts1, Some folderUrl)), w1) \<Rightarrow> (Inr (Some (opts1, folderUrl)), w1))
      else
        (case getFolderUrl (int_of (year opts)) (int_of (month opts)) (int_of (day opts))
                (site opts) (ftype opts) of
           Inl e \<Rightarrow> (Inl e, w)
         | Inr folderUrl \<Rightarrow> (Inr (Some (opts, folderUrl)), w)))"

text \<open>Lines 258 to 276: the index of the folder and its parsed table.\<close>

definition indexPath_of :: "options \<Rightarrow> string \<Rightarrow> string" where
  "indexPath_of opts outputFolder = os_path_join outputFolder [ftype opts @ ''_index.html'']"

definition parsedIndexPath_of :: "options \<Rightarrow> string \<Rightarrow> string" where
  "parsedIndexPath_of opts outputFolder = indexPath_of opts outputFolder @ ''.csv''"

text \<open>Lines 262 to 264: the two \<open>rm -f\<close> commands of \<open>--refetch-index\<close>.\<close>

definition refetchStep :: "env \<Rightarrow> options \<Rightarrow> string \<Rightarrow> world \<Rightarrow> world" where
  "refetchStep env opts outputFolder w =
     (let indexPath = indexPath_of opts outputFolder;
          parsedIndexPath = parsedIndexPath_of opts outputFolder
      in if refetchIndex opts
         then system_rm env parsedIndexPath (system_rm env indexPath w) else w)"

definition indexPhase ::
    "env \<Rightarrow> options \<Rightarrow> string \<Rightarrow> string \<Rightarrow> world \<Rightarrow> (exn + unit) \<times> world" where
  "indexPhase env opts folderUrl outputFolder w =
     (let indexPath = indexPath_of opts outputFolder;
          parsedIndexPath = parsedIndexPath_of opts outputFolder;
          w1 = refetchStep env opts outputFolder w;
          (r, w2) = (if fileExists (files w1) parsedIndexPath then (Inr (), w1)
                     else fetchAndParseIndexFile env folderUrl indexPath parsedIndexPath
                            (ftype opts) w1)
      in case r of
           Inl e \<Rightarrow> (Inl e, w2)
         | Inr _ \<Rightarrow>
             (if zipIfAllFetched opts \<and> \<not> fileExists (files w2) parsedIndexPath
                 \<and> ftype opts \<noteq> ''dem'' \<and> ftype opts \<noteq> ''lidar''
              then (Inl (Exception (''Cannot zip, missing file: '' @ parsedIndexPath)), w2)
              else (Inr (), w2)))"

text \<open>Lines 297 to 299: the bounds under \<open>--all-frames\<close>.\<close>

definition frameBounds :: "options \<Rightarrow> table \<Rightarrow> options" where
  "frameBounds opts t =
     (if allFrames opts
      then opts\<lparr>startFrame := Some (firstFrame t), stopFrame := Some (lastFrame t)\<rparr>
      else opts)"

text \<open>
  The state of the download loop: the world, the URLs that follow \<open>-O\<close> in \<open>curlCmd\<close>,
  \<open>currentFileCount\<close> and \<open>allFilesToFetch\<close>.
\<close>

record loopState =
  lw :: world
  curlCmd :: "string list"
  currentFileCount :: nat
  allFilesToFetch :: "string list"

text \<open>Lines 340 to 354: the body of the loop over the files of one frame.\<close>

definition fetchOne ::
    "env \<Rightarrow> options \<Rightarrow> string \<Rightarrow> string \<Rightarrow> loopState \<Rightarrow> string \<Rightarrow> loopState" where
  "fetchOne env opts folderUrl outputFolder st filename =
     (let url = os_path_join folderUrl [filename];
          outputPath = os_path_join outputFolder [filename];
          st1 = st\<lparr>allFilesToFetch := allFilesToFetch st @ [outputPath]\<rparr>;
          st2 = (if zipIfAllFetched opts \<and> hasImageExtension env outputPath
                    \<and> fileExists (files (lw st1)) outputPath
                    \<and> \<not> validImageAt env (files (lw st1)) outputPath
                 then st1\<lparr>lw := os_remove outputPath (lw st1)\<rparr> else st1)
      in if \<not> fileExists (files (lw st2)) outputPath
         then st2\<lparr>curlCmd := curlCmd st2 @ [url],
                  currentFileCount := currentFileCount st2 + 1\<rparr>
         else st2)"

definition currFilesToFetch :: "options \<Rightarrow> string \<Rightarrow> string list" where
  "currFilesToFetch opts filename =
     [filename] @
     (if ftype opts \<in> set LIDAR_TYPES \<or> ftype opts = ''ortho'' then [filename @ ''.xml'']
      else [])"

definition inFrameRange :: "options \<Rightarrow> int \<Rightarrow> bool" where
  "inFrameRange opts frame =
     (py_le (startFrame opts) (Some frame) \<and> py_le (Some frame) (stopFrame opts))"

text \<open>Lines 358 to 365: the download command is logged, run and started afresh.\<close>

definition runBatch :: "env \<Rightarrow> options \<Rightarrow> string \<Rightarrow> loopState \<Rightarrow> loopState" where
  "runBatch env opts outputFolder st =
     (let w1 = log_event (LogCmd (curlCmd st)) (lw st);
          w2 = (if \<not> dryRun opts
                then log_event (Popen outputFolder (curlCmd st))
                       (w1\<lparr>files := curlFiles env outputFolder (curlCmd st) (files w1)\<rparr>)
                else w1)
      in st\<lparr>lw := w2, currentFileCount := 0, curlCmd := []\<rparr>)"

text \<open>
  Lines 329 to 365: the body of the loop over the frames. A frame of the loop is a
  key of the dictionary, so the lookup finds it.
\<close>

definition processFrame ::
    "env \<Rightarrow> options \<Rightarrow> string \<Rightarrow> string \<Rightarrow> (int \<times> string) list \<Rightarrow> int option
      \<Rightarrow> loopState \<Rightarrow> int \<Rightarrow> loopState" where
  "processFrame env opts folderUrl outputFolder fd lastKey st frame =
     (let st1 = (if inFrameRange opts frame then
                   (case map_of fd frame of
                      None \<Rightarrow> st
                    | Some filename \<Rightarrow>
                        foldl (fetchOne env opts folderUrl outputFolder) st
                          (currFilesToFetch opts filename))
                 else st)
      in if (currentFileCount st1 \<ge> MAX_IN_ONE_CALL \<or> Some frame = lastKey)
            \<and> currentFileCount st1 > 0
         then runBatch env opts outputFolder st1
         else st1)"

text \<open>Lines 322 to 365, from the sorted keys to the end of the loop.\<close>

definition downloadLoop ::
    "env \<Rightarrow> options \<Rightarrow> string \<Rightarrow> string \<Rightarrow> (int \<times> string) list \<Rightarrow> world \<Rightarrow> loopState" where
  "downloadLoop env opts folderUrl outputFolder fd w =
     (let allKeys = sort (map fst fd);
          lastKey = (if length allKeys > 0 then Some (allKeys ! (length allKeys - 1)) else None)
      in foldl (processFrame env opts folderUrl outputFolder fd lastKey)
           \<lparr>lw = w, curlCmd = [], currentFileCount = 0, allFilesToFetch = []\<rparr>
           allKeys)"

text \<open>Lines 370 to 383: the last check, which stops at the first file that fails.\<close>

fun verifyFetched :: "env \<Rightarrow> string list \<Rightarrow> world \<Rightarrow> (exn + unit) \<times> world" where
  "verifyFetched env [] w = (Inr (), w)"
| "verifyFetched env (outputPath # rest) w =
     (if \<not> fileExists (files w) outputPath
      then (Inl (Exception (''Cannot zip, missing file: '' @ outputPath)), w)
      else if hasImageExtension env outputPath \<and> \<not> validImageAt env (files w) outputPath
      then (Inl (Exception (''Found an invalid image. Cannot zip. ''
                             @ ''Please rerun fetching. Will wipe the invalid image: ''
                             @ outputPath)),
            os_remove outputPath w)
      else verifyFetched env rest w)"

text \<open>Lines 369 to 386.\<close>

definition finish :: "env \<Rightarrow> options \<Rightarrow> string list \<Rightarrow> world \<Rightarrow> (exn + int) \<times> world" where
  "finish env opts paths w =
     (if zipIfAllFetched opts then
        (case verifyFetched env paths w of
           (Inl e, w1) \<Rightarrow> (Inl e, w1)
         | (Inr _, w1) \<Rightarrow> (Inr 0, w1))
      else (Inr 0, w))"

text \<open>Lines 258 to 386: \<open>main\<close> once the type and the folder URL are chosen.\<close>

definition mainRest ::
    "env \<Rightarrow> options \<Rightarrow> string \<Rightarrow> string \<Rightarrow> world \<Rightarrow> (exn + int) \<times> world" where
  "mainRest env opts1 folderUrl outputFolder w1 =
     (case indexPhase env opts1 folderUrl outputFolder w1 of
        (Inl e, w2) \<Rightarrow> (Inl e, w2)
      | (Inr _, w2) \<Rightarrow>
          (case readTable env (parsedIndexPath_of opts1 outputFolder) w2 of
             (Inl e, w3) \<Rightarrow> (Inl e, w3)
           | (Inr t, w3) \<Rightarrow>
               (let opts2 = frameBounds opts1 t;
                    st = downloadLoop env opts2 folderUrl outputFolder (frameDict t) w3
                in finish env opts2 (allFilesToFetch st) (lw st))))"

text \<open>
  \<open>main\<close>, from line 204 on. The result is the exception raised or the value returned,
  and the world \<open>main\<close> leaves behind.
\<close>

definition main :: "env \<Rightarrow> options \<Rightarrow> string \<Rightarrow> world \<Rightarrow> (exn + int) \<times> world" where
  "main env options0 outputFolder w =
     (let opts = defaultStopFrame options0 in
      if argsRejected env opts (files w) then (Inr (- 1), w)
      else
        (case chooseFolder env opts w of
           (Inl e, w1) \<Rightarrow> (Inl e, w1)
         | (Inr None, w1) \<Rightarrow> (Inr (- 1), w1)
         | (Inr (Some (opts1, folderUrl)), w1) \<Rightarrow>
             mainRest env opts1 folderUrl outputFolder w1))"

section \<open>Notions used in the statements\<close>





text \<open>
  The line of the parsed index for a match, without its terminator, and whether
  \<open>getFrameNumberFromFilename2\<close> returns a frame for the match.
\<close>

definition tableLine :: "env \<Rightarrow> string \<Rightarrow> string" where
  "tableLine env m =
     (case getFrameNumberFromFilename2 env (cleanName m) of
        Inl e \<Rightarrow> []
      | Inr frame \<Rightarrow> str frame @ '', '' @ cleanName m)"

definition frameKnown :: "env \<Rightarrow> string \<Rightarrow> bool" where
  "frameKnown env m =
     (case getFrameNumberFromFilename2 env (cleanName m) of Inl e \<Rightarrow> False | Inr frame \<Rightarrow> True)"


text \<open>
  An existing file that the loop removes before it looks whether the file is missing:
  under \<open>--zip-if-all-fetched\<close>, an image that fails validation.
\<close>

definition wiped :: "env \<Rightarrow> options \<Rightarrow> fs \<Rightarrow> string \<Rightarrow> bool" where
  "wiped env opts f outputPath =
     (zipIfAllFetched opts \<and> hasImageExtension env outputPath \<and> fileExists f outputPath
      \<and> \<not> validImageAt env f outputPath)"


text \<open>
  The download commands a trace logs and runs, the events the download loop and the
  last check can cause (with a bound on the URLs of a command), the events a run adds
  to a trace, and a trace that a run only extends, by events of one kind.
\<close>

definition logged :: "event list \<Rightarrow> string list list" where
  "logged tr = concat (map (\<lambda>e. case e of LogCmd urls \<Rightarrow> [urls] | _ \<Rightarrow> []) tr)"

definition executed :: "event list \<Rightarrow> string list list" where
  "executed tr = concat (map (\<lambda>e. case e of Popen cwd urls \<Rightarrow> [urls] | _ \<Rightarrow> []) tr)"


definition since :: "world \<Rightarrow> world \<Rightarrow> event list" where
  "since w w' = drop (length (trace w)) (trace w')"

definition grows :: "(event \<Rightarrow> bool) \<Rightarrow> world \<Rightarrow> world \<Rightarrow> bool" where
  "grows P w w' = (\<exists>new. trace w' = trace w @ new \<and> list_all P new)"


text \<open>A file that the last check accepts.\<close>

definition passes :: "env \<Rightarrow> fs \<Rightarrow> string \<Rightarrow> bool" where
  "passes env f p = (fileExists f p \<and> (hasImageExtension env p \<longrightarrow> validImageAt env f p))"


text \<open>
  The URLs that a frame adds to the download command when no file is removed before
  its check: those of the files of the frame that are missing in the file system \<open>f\<close>.
\<close>

definition wanted ::
    "options \<Rightarrow> string \<Rightarrow> string \<Rightarrow> (int \<times> string) list \<Rightarrow> fs \<Rightarrow> int \<Rightarrow> string list" where
  "wanted opts folderUrl outputFolder fd f frame =
     (if inFrameRange opts frame then
        (case map_of fd frame of
           None \<Rightarrow> []
         | Some filename \<Rightarrow>
             map (\<lambda>x. os_path_join folderUrl [x])
               (filter (\<lambda>x. \<not> fileExists f (os_path_join outputFolder [x]))
                  (currFilesToFetch opts filename)))
      else [])"

section \<open>Example inputs\<close>

text \<open>
  A flight of two images. The frame of a file name is the number in its last five
  digits, every file counts as an image, and an image is valid when its
  contents are \<open>ok\<close>. No URL exists, a download changes no file, and \<open>rm -f\<close>
  removes the file at the path it is given.
\<close>

definition ex_env :: env where
  "ex_env = \<lparr>headStatus = (\<lambda>u. 404),
     curlIndex = (\<lambda>u. ''<a href=x>2009_10_16_00002.JPG</a><a href=y>2009_10_16_00001.jpg</a>''),
     curlFiles = (\<lambda>cwd urls f. f),
     shellRm = (\<lambda>s f. f(s := None)),
     getFrameNumberFromFilename2 = (\<lambda>s. int_of_str (take 5 (drop 11 s))),
     hasImageExtension = (\<lambda>p. True),
     isValidImage = (\<lambda>p c. c = ''ok''),
     getLargestFrame = 99999999, getSmallestFrame = 0, home = ''/h''\<rparr>"

definition ex_opts :: options where
  "ex_opts = \<lparr>year = Some 2009, month = Some 10, day = Some 16, site = Some ''AN'',
     startFrame = Some 1, stopFrame = None, allFrames = False, dryRun = False,
     zipIfAllFetched = False, refetchIndex = False, ftype = ''image''\<rparr>"

definition ex_world :: world where
  "ex_world = \<lparr>files = [''/h/.netrc'' \<mapsto> ''x'', ''/h/.urs_cookies'' \<mapsto> ''y''], trace = []\<rparr>"

definition ex_lidar :: options where
  "ex_lidar = ex_opts\<lparr>ftype := ''lidar'', site := None\<rparr>"



text \<open>
  The options with \<open>--zip-if-all-fetched\<close>, a folder with a valid image, an invalid
  image and an empty file, and a server whose index lists no file.
\<close>

definition ex_zip :: options where
  "ex_zip = ex_opts\<lparr>zipIfAllFetched := True\<rparr>"

definition ex_files_world :: world where
  "ex_files_world =
     \<lparr>files = [''/out/a.JPG'' \<mapsto> ''ok'', ''/out/b.JPG'' \<mapsto> ''bad'', ''/out/c.JPG'' \<mapsto> []],
      trace = []\<rparr>"




text \<open>
  A folder whose one image is on disk but not valid, with a server from which the
  download of this image succeeds; and the state in which the download loop starts
  in the folder of three files.
\<close>

definition ex_redownload_env :: env where
  "ex_redownload_env = ex_env\<lparr>curlFiles := (\<lambda>cwd urls f. f(''/out/b.JPG'' \<mapsto> ''ok''))\<rparr>"

definition ex_bad_image_world :: world where
  "ex_bad_image_world =
     \<lparr>files = [''/h/.netrc'' \<mapsto> ''x'', ''/h/.urs_cookies'' \<mapsto> ''y'',
                ''/out/image_index.html.csv'' \<mapsto> ''1, b.JPG'' @ [newline],
                ''/out/b.JPG'' \<mapsto> ''bad''],
      trace = []\<rparr>"

definition ex_loop_start :: loopState where
  "ex_loop_start = \<lparr>lw = ex_files_world, curlCmd = [], currentFileCount = 0, allFilesToFetch = []\<rparr>"

text \<open>
  A flight of 51 ortho frames, all asked for. The parsed index is on disk; of the
  102 files of the frames only the first, \<open>DMS_1.tif\<close>, is.
\<close>

definition many_table :: "(int \<times> string) list" where
  "many_table = map (\<lambda>i. (int i, ''DMS_'' @ str (int i) @ ''.tif'')) [1..<52]"

definition many_opts :: options where
  "many_opts = ex_opts\<lparr>ftype := ''ortho'', site := None, allFrames := True\<rparr>"

definition many_world :: world where
  "many_world =
     \<lparr>files = [''/h/.netrc'' \<mapsto> ''x'', ''/h/.urs_cookies'' \<mapsto> ''y'',
                ''/out/ortho_index.html.csv'' \<mapsto>
                   concat (map (\<lambda>(k, v). str k @ '', '' @ v @ [newline]) many_table),
                ''/out/DMS_1.tif'' \<mapsto> ''data''],
      trace = []\<rparr>"

section \<open>Proofs\<close>

subsection \<open>Decimal digits and paths\<close>

lemma digit_char_in: "d < 10 \<Longrightarrow> digit_char d \<in> set ''0123456789''"
  unfolding digit_char_def by (rule nth_mem) simp

lemma str_nat_chars: "set (str_nat n) \<subseteq> set ''0123456789''"
proof (induction n rule: str_nat.induct)
  case (1 n)
  show ?case
  proof (cases "n < 10")
    case True
    then show ?thesis using digit_char_in [of n] by (subst str_nat.simps) simp
  next
    case False
    have "n mod 10 < 10" by simp
    then have "digit_char (n mod 10) \<in> set ''0123456789''" by (rule digit_char_in)
    with False 1 show ?thesis by (subst str_nat.simps) simp
  qed
qed

lemma str_nat_nonempty: "str_nat n \<noteq> []"
  by (subst str_nat.simps) simp

lemma str_chars: "set (str i) \<subseteq> set ''-0123456789''"
  using str_nat_chars unfolding str_def by (auto simp del: set_simps simp add: set_simps(2) [of "CHR ''-''"])

lemma str_nonempty: "str i \<noteq> []"
  by (simp add: str_def str_nat_nonempty)

lemma fmt_0d_chars: "set (fmt_0d w i) \<subseteq> set ''-0123456789''"
proof -
  have a: "set (str i) \<subseteq> set ''-0123456789''" by (rule str_chars)
  have b: "set (tl (str i)) \<subseteq> set (str i)" by (cases "str i") auto
  show ?thesis
    using a b unfolding fmt_0d_def Let_def by (auto simp del: set_simps simp add: set_simps(2) [of "CHR ''-''"] set_simps(2) [of "CHR ''0''"])
qed

lemma fmt_0d_nonempty: "fmt_0d w i \<noteq> []"
  by (simp add: fmt_0d_def Let_def str_nonempty)

lemma str_nat_len2: "n < 100 \<Longrightarrow> length (str_nat n) \<le> 2"
  by (subst str_nat.simps, subst str_nat.simps) simp

lemma str_nat_len4: "n < 10000 \<Longrightarrow> length (str_nat n) \<le> 4"
  by (subst str_nat.simps, subst str_nat.simps, subst str_nat.simps, subst str_nat.simps) simp

lemma fmt_0d_length: "0 \<le> i \<Longrightarrow> length (fmt_0d w i) = max w (length (str i))"
  by (simp add: fmt_0d_def Let_def)


lemma no_slash_start:
  assumes "s \<noteq> []" and "set s \<subseteq> set ''-0123456789''"
  shows "\<not> starts_with_slash (s @ t)"
proof -
  from assms(1) obtain c cs where s: "s = c # cs" by (cases s) auto
  with assms(2) have "c \<in> set ''-0123456789''" by simp
  then have "c \<noteq> CHR ''/''" by auto
  with s show ?thesis by (simp add: starts_with_slash_def)
qed

lemma join_plain:
  "\<not> starts_with_slash b \<Longrightarrow> a \<noteq> [] \<Longrightarrow> \<not> ends_with_slash a \<Longrightarrow> join_step a b = a @ ''/'' @ b"
  by (simp add: join_step_def)

lemma join_after_slash:
  "\<not> starts_with_slash b \<Longrightarrow> ends_with_slash a \<Longrightarrow> join_step a b = a @ b"
  by (simp add: join_step_def)

subsection \<open>Folder URLs\<close>

lemma makeDateFolder_rel: "\<not> starts_with_slash (makeDateFolder y m d t)"
proof (cases "t = ''image''")
  case True
  then show ?thesis
    using no_slash_start [OF fmt_0d_nonempty fmt_0d_chars, of 2 m] by (simp add: makeDateFolder_def)
next
  case False
  then show ?thesis
    using no_slash_start [OF fmt_0d_nonempty fmt_0d_chars, of 4 y] by (simp add: makeDateFolder_def)
qed

lemma getFolderUrl_image:
  "getFolderUrl y m d (Some s) ''image'' =
     Inr (''https://n5eil01u.ecs.nsidc.org/ICEBRIDGE_FTP/IODMS0_DMSraw_v01'' @ ''/''
          @ (str y @ ''_'' @ s @ ''_NASA'') @ ''/''
          @ (fmt_0d 2 m @ fmt_0d 2 d @ fmt_0d 4 y @ ''_raw''))"
proof -
  let ?base = "''https://n5eil01u.ecs.nsidc.org/ICEBRIDGE_FTP/IODMS0_DMSraw_v01''"
  let ?yf = "str y @ ''_'' @ s @ ''_NASA''"
  let ?df = "makeDateFolder y m d ''image''"
  have 1: "\<not> starts_with_slash ?yf"
    using no_slash_start [OF str_nonempty str_chars] by simp
  have 2: "join_step ?base ?yf = ?base @ ''/'' @ ?yf"
    using 1 by (intro join_plain) (simp_all add: ends_with_slash_def)
  have 3: "\<not> ends_with_slash (?base @ ''/'' @ ?yf)"
    by (simp add: ends_with_slash_def)
  have 4: "join_step (?base @ ''/'' @ ?yf) ?df = (?base @ ''/'' @ ?yf) @ ''/'' @ ?df"
    using makeDateFolder_rel 3 by (intro join_plain) simp_all
  show ?thesis
    unfolding getFolderUrl_def makeYearFolder_def os_path_join_def Let_def
    using 2 4 by (simp add: makeDateFolder_def)
qed

lemma getFolderUrl_fixed_base:
  assumes "t \<noteq> ''image''" and "b \<noteq> []"
  shows "os_path_join b [makeDateFolder y m d t] =
           (if ends_with_slash b then b else b @ ''/'') @ fmt_0d 4 y @ ''.'' @ fmt_0d 2 m @ ''.'' @ fmt_0d 2 d"
  using assms makeDateFolder_rel [of y m d t]
  by (simp add: os_path_join_def join_step_def makeDateFolder_def)

lemma getFolderUrl_others:
  "getFolderUrl y m d s ''ortho'' = Inr (''https://n5eil01u.ecs.nsidc.org/ICEBRIDGE/IODMS1B.001'' @ ''/'' @ (fmt_0d 4 y @ ''.'' @ fmt_0d 2 m @ ''.'' @ fmt_0d 2 d))"
  "getFolderUrl y m d s ''dem'' = Inr (''https://n5eil01u.ecs.nsidc.org/ICEBRIDGE/IODMS3.001'' @ ''/'' @ (fmt_0d 4 y @ ''.'' @ fmt_0d 2 m @ ''.'' @ fmt_0d 2 d))"
  "getFolderUrl y m d s ''lvis'' = Inr (''https://n5eil01u.ecs.nsidc.org/ICEBRIDGE/ILVIS2.001/'' @ (fmt_0d 4 y @ ''.'' @ fmt_0d 2 m @ ''.'' @ fmt_0d 2 d))"
  "getFolderUrl y m d s ''atm1'' = Inr (''https://n5eil01u.ecs.nsidc.org/ICEBRIDGE/ILATM1B.001/'' @ (fmt_0d 4 y @ ''.'' @ fmt_0d 2 m @ ''.'' @ fmt_0d 2 d))"
  "getFolderUrl y m d s ''atm2'' = Inr (''https://n5eil01u.ecs.nsidc.org/ICEBRIDGE/ILATM1B.002/'' @ (fmt_0d 4 y @ ''.'' @ fmt_0d 2 m @ ''.'' @ fmt_0d 2 d))"
  unfolding getFolderUrl_def Let_def
  by (simp_all add: getFolderUrl_fixed_base ends_with_slash_def)

lemma getFolderUrl_site_irrelevant:
  "t \<noteq> ''image'' \<Longrightarrow> getFolderUrl y m d s t = getFolderUrl y m d s' t"
  by (simp add: getFolderUrl_def)

lemma getFolderUrl_site_matters:
  "getFolderUrl y m d (Some s) ''image'' = getFolderUrl y m d (Some s') ''image'' \<longleftrightarrow> s = s'"
  by (simp add: getFolderUrl_image)

text \<open>
  C5. For every year, month, day and site, \<open>getFolderUrl\<close> with the type \<open>image\<close>
  returns the base \<open>IODMS0_DMSraw_v01\<close> joined with \<open><year>_<site>_NASA\<close> and with
  \<open><MM><DD><YYYY>_raw\<close>; for each of \<open>ortho\<close>, \<open>dem\<close>, \<open>lvis\<close>, \<open>atm1\<close> and \<open>atm2\<close>
  it returns the fixed base of the type joined with \<open><YYYY>.<MM>.<DD>\<close>. The site
  makes no difference to the URL of a type other than \<open>image\<close>, and two sites give
  two URLs for \<open>image\<close>. The fields are \<open>%02d\<close> and \<open>%04d\<close> formats: two and four
  digits for a month and day below 100 and a year below 10000.
\<close>

theorem getFolderUrl_construction:
  "getFolderUrl y m d (Some s) ''image'' =
      Inr (''https://n5eil01u.ecs.nsidc.org/ICEBRIDGE_FTP/IODMS0_DMSraw_v01'' @ ''/''
           @ (str y @ ''_'' @ s @ ''_NASA'') @ ''/''
           @ (fmt_0d 2 m @ fmt_0d 2 d @ fmt_0d 4 y @ ''_raw''))
   \<and> getFolderUrl y m d s0 ''ortho'' =
      Inr (''https://n5eil01u.ecs.nsidc.org/ICEBRIDGE/IODMS1B.001'' @ ''/''
           @ (fmt_0d 4 y @ ''.'' @ fmt_0d 2 m @ ''.'' @ fmt_0d 2 d))
   \<and> getFolderUrl y m d s0 ''dem'' =
      Inr (''https://n5eil01u.ecs.nsidc.org/ICEBRIDGE/IODMS3.001'' @ ''/''
           @ (fmt_0d 4 y @ ''.'' @ fmt_0d 2 m @ ''.'' @ fmt_0d 2 d))
   \<and> getFolderUrl y m d s0 ''lvis'' =
      Inr (''https://n5eil01u.ecs.nsidc.org/ICEBRIDGE/ILVIS2.001/''
           @ (fmt_0d 4 y @ ''.'' @ fmt_0d 2 m @ ''.'' @ fmt_0d 2 d))
   \<and> getFolderUrl y m d s0 ''atm1'' =
      Inr (''https://n5eil01u.ecs.nsidc.org/ICEBRIDGE/ILATM1B.001/''
           @ (fmt_0d 4 y @ ''.'' @ fmt_0d 2 m @ ''.'' @ fmt_0d 2 d))
   \<and> getFolderUrl y m d s0 ''atm2'' =
      Inr (''https://n5eil01u.ecs.nsidc.org/ICEBRIDGE/ILATM1B.002/''
           @ (fmt_0d 4 y @ ''.'' @ fmt_0d 2 m @ ''.'' @ fmt_0d 2 d))
   \<and> (t \<noteq> ''image'' \<longrightarrow> getFolderUrl y m d s1 t = getFolderUrl y m d s2 t)
   \<and> (getFolderUrl y m d (Some s) ''image'' = getFolderUrl y m d (Some s') ''image'') = (s = s')
   \<and> (0 \<le> y \<and> y < 10000 \<and> 0 \<le> m \<and> m < 100 \<and> 0 \<le> d \<and> d < 100 \<longrightarrow>
        length (fmt_0d 4 y) = 4 \<and> length (fmt_0d 2 m) = 2 \<and> length (fmt_0d 2 d) = 2)"
proof -
  have len: "0 \<le> y \<and> y < 10000 \<and> 0 \<le> m \<and> m < 100 \<and> 0 \<le> d \<and> d < 100 \<longrightarrow>
        length (fmt_0d 4 y) = 4 \<and> length (fmt_0d 2 m) = 2 \<and> length (fmt_0d 2 d) = 2"
  proof
    assume a: "0 \<le> y \<and> y < 10000 \<and> 0 \<le> m \<and> m < 100 \<and> 0 \<le> d \<and> d < 100"
    then have "nat y < 10000" "nat m < 100" "nat d < 100" by arith+
    with a have "length (str y) \<le> 4" "length (str m) \<le> 2" "length (str d) \<le> 2"
      using str_nat_len4 [of "nat y"] str_nat_len2 [of "nat m"] str_nat_len2 [of "nat d"]
      by (simp_all add: str_def)
    with a show "length (fmt_0d 4 y) = 4 \<and> length (fmt_0d 2 m) = 2 \<and> length (fmt_0d 2 d) = 2"
      by (simp add: fmt_0d_length)
  qed
  have site: "t \<noteq> ''image'' \<longrightarrow> getFolderUrl y m d s1 t = getFolderUrl y m d s2 t"
    using getFolderUrl_site_irrelevant by blast
  show ?thesis
    using len site getFolderUrl_image [of y m d s] getFolderUrl_others [of y m d s0]
      getFolderUrl_site_matters [of y m d s s']
    by (intro conjI) assumption+
qed

theorem getFolderUrl_construction_witness:
  "getFolderUrl 2009 10 16 (Some ''AN'') ''image'' =
      Inr ''https://n5eil01u.ecs.nsidc.org/ICEBRIDGE_FTP/IODMS0_DMSraw_v01/2009_AN_NASA/10162009_raw''
   \<and> getFolderUrl 2009 10 16 None ''atm1'' =
      Inr ''https://n5eil01u.ecs.nsidc.org/ICEBRIDGE/ILATM1B.001/2009.10.16''
   \<and> ''ortho'' \<noteq> ''image''
   \<and> getFolderUrl 2009 10 16 (Some ''AN'') ''ortho'' = getFolderUrl 2009 10 16 None ''ortho''
   \<and> length (fmt_0d 4 2009) = 4 \<and> length (fmt_0d 2 10) = 2 \<and> length (fmt_0d 2 16) = 2"
proof -
  have e: "str 2009 = ''2009''" "fmt_0d 2 10 = ''10''" "fmt_0d 2 16 = ''16''" "fmt_0d 4 2009 = ''2009''"
    by code_simp+
  show ?thesis
    using getFolderUrl_construction [of 2009 10 16 "''AN''" None "''ortho''" "Some ''AN''" None "''AN''"] e
    by simp
qed

subsection \<open>The URL check and the lidar sources\<close>

text \<open>
  C7. \<open>checkIfUrlExists\<close> makes one HEAD request for the URL and returns \<open>True\<close>
  if and only if the status of the response is 403 or 301; the statuses 200 and 404
  are reported as not valid.
\<close>

theorem checkIfUrlExists_status:
  "fst (checkIfUrlExists env url w) = (headStatus env url = 403 \<or> headStatus env url = 301)
   \<and> snd (checkIfUrlExists env url w) = w\<lparr>trace := trace w @ [HttpHead url]\<rparr>
   \<and> \<not> fst (checkIfUrlExists (env\<lparr>headStatus := (\<lambda>u. 200)\<rparr>) url w)
   \<and> \<not> fst (checkIfUrlExists (env\<lparr>headStatus := (\<lambda>u. 404)\<rparr>) url w)
   \<and> fst (checkIfUrlExists (env\<lparr>headStatus := (\<lambda>u. 403)\<rparr>) url w)
   \<and> fst (checkIfUrlExists (env\<lparr>headStatus := (\<lambda>u. 301)\<rparr>) url w)"
  by (simp add: checkIfUrlExists_def log_event_def Let_def)

lemma check_eq:
  "checkIfUrlExists env url w = (headStatus env url \<in> {403, 301}, log_event (HttpHead url) w)"
  by (auto simp add: checkIfUrlExists_def Let_def)

theorem lidar_fallback:
  assumes lidar: "ftype opts = ''lidar''"
    and u1: "getFolderUrl (int_of (year opts)) (int_of (month opts)) (int_of (day opts)) (site opts) ''lvis'' = Inr u1"
    and u2: "getFolderUrl (int_of (year opts)) (int_of (month opts)) (int_of (day opts)) (site opts) ''atm1'' = Inr u2"
    and u3: "getFolderUrl (int_of (year opts)) (int_of (month opts)) (int_of (day opts)) (site opts) ''atm2'' = Inr u3"
  shows "chooseFolder env opts w =
     (if headStatus env u1 \<in> {403, 301} then
        (Inr (Some (opts\<lparr>allFrames := True, ftype := ''lvis''\<rparr>, u1)),
         w\<lparr>trace := trace w @ [HttpHead u1]\<rparr>)
      else if headStatus env u2 \<in> {403, 301} then
        (Inr (Some (opts\<lparr>allFrames := True, ftype := ''atm1''\<rparr>, u2)),
         w\<lparr>trace := trace w @ [HttpHead u1, HttpHead u2]\<rparr>)
      else if headStatus env u3 \<in> {403, 301} then
        (Inr (Some (opts\<lparr>allFrames := True, ftype := ''atm2''\<rparr>, u3)),
         w\<lparr>trace := trace w @ [HttpHead u1, HttpHead u2, HttpHead u3]\<rparr>)
      else if zipIfAllFetched opts then
        (Inr (Some (opts\<lparr>allFrames := True\<rparr>, u3)),
         w\<lparr>trace := trace w @ [HttpHead u1, HttpHead u2, HttpHead u3]\<rparr>)
      else (Inr None, w\<lparr>trace := trace w @ [HttpHead u1, HttpHead u2, HttpHead u3]\<rparr>))"
  using lidar u1 u2 u3
  by (simp add: chooseFolder_def LIDAR_TYPES_def check_eq log_event_def)

lemma defaultStopFrame_fields [simp]:
  "ftype (defaultStopFrame opts) = ftype opts"
  "year (defaultStopFrame opts) = year opts"
  "month (defaultStopFrame opts) = month opts"
  "day (defaultStopFrame opts) = day opts"
  "site (defaultStopFrame opts) = site opts"
  "zipIfAllFetched (defaultStopFrame opts) = zipIfAllFetched opts"
  by (simp_all add: defaultStopFrame_def)

text \<open>
  C10. When the type is \<open>lidar\<close> and the arguments are accepted, \<open>main\<close> turns
  \<open>allFrames\<close> on and asks for the folder URLs of \<open>lvis\<close>, \<open>atm1\<close> and \<open>atm2\<close> in
  this order, up to the first that exists; it goes on with that type and URL. When
  none exists it returns \<open>-1\<close>, unless \<open>--zip-if-all-fetched\<close> is set: then it goes
  on with the type \<open>lidar\<close> and the URL of \<open>atm2\<close>.
\<close>

theorem lidar_source_fallback:
  assumes lidar: "ftype opts = ''lidar''"
    and accepted: "\<not> argsRejected env (defaultStopFrame opts) (files w)"
    and u1: "getFolderUrl (int_of (year opts)) (int_of (month opts)) (int_of (day opts))
               (site opts) ''lvis'' = Inr u1"
    and u2: "getFolderUrl (int_of (year opts)) (int_of (month opts)) (int_of (day opts))
               (site opts) ''atm1'' = Inr u2"
    and u3: "getFolderUrl (int_of (year opts)) (int_of (month opts)) (int_of (day opts))
               (site opts) ''atm2'' = Inr u3"
  shows "main env opts outputFolder w =
     (if headStatus env u1 \<in> {403, 301} then
        mainRest env ((defaultStopFrame opts)\<lparr>allFrames := True, ftype := ''lvis''\<rparr>) u1
          outputFolder (w\<lparr>trace := trace w @ [HttpHead u1]\<rparr>)
      else if headStatus env u2 \<in> {403, 301} then
        mainRest env ((defaultStopFrame opts)\<lparr>allFrames := True, ftype := ''atm1''\<rparr>) u2
          outputFolder (w\<lparr>trace := trace w @ [HttpHead u1, HttpHead u2]\<rparr>)
      else if headStatus env u3 \<in> {403, 301} then
        mainRest env ((defaultStopFrame opts)\<lparr>allFrames := True, ftype := ''atm2''\<rparr>) u3
          outputFolder (w\<lparr>trace := trace w @ [HttpHead u1, HttpHead u2, HttpHead u3]\<rparr>)
      else if zipIfAllFetched opts then
        mainRest env ((defaultStopFrame opts)\<lparr>allFrames := True\<rparr>) u3
          outputFolder (w\<lparr>trace := trace w @ [HttpHead u1, HttpHead u2, HttpHead u3]\<rparr>)
      else (Inr (- 1), w\<lparr>trace := trace w @ [HttpHead u1, HttpHead u2, HttpHead u3]\<rparr>))"
proof -
  let ?o = "defaultStopFrame opts"
  have "chooseFolder env ?o w =
     (if headStatus env u1 \<in> {403, 301} then
        (Inr (Some (?o\<lparr>allFrames := True, ftype := ''lvis''\<rparr>, u1)),
         w\<lparr>trace := trace w @ [HttpHead u1]\<rparr>)
      else if headStatus env u2 \<in> {403, 301} then
        (Inr (Some (?o\<lparr>allFrames := True, ftype := ''atm1''\<rparr>, u2)),
         w\<lparr>trace := trace w @ [HttpHead u1, HttpHead u2]\<rparr>)
      else if headStatus env u3 \<in> {403, 301} then
        (Inr (Some (?o\<lparr>allFrames := True, ftype := ''atm2''\<rparr>, u3)),
         w\<lparr>trace := trace w @ [HttpHead u1, HttpHead u2, HttpHead u3]\<rparr>)
      else if zipIfAllFetched ?o then
        (Inr (Some (?o\<lparr>allFrames := True\<rparr>, u3)),
         w\<lparr>trace := trace w @ [HttpHead u1, HttpHead u2, HttpHead u3]\<rparr>)
      else (Inr None, w\<lparr>trace := trace w @ [HttpHead u1, HttpHead u2, HttpHead u3]\<rparr>))"
    using lidar u1 u2 u3 by (intro lidar_fallback) simp_all
  with accepted show ?thesis by (simp add: main_def Let_def)
qed

theorem lidar_source_fallback_witness:
  "ftype ex_lidar = ''lidar''
   \<and> \<not> argsRejected ex_env (defaultStopFrame ex_lidar) (files ex_world)
   \<and> main ex_env ex_lidar ''/out'' ex_world =
       (Inr (- 1),
        ex_world\<lparr>trace := [HttpHead ''https://n5eil01u.ecs.nsidc.org/ICEBRIDGE/ILVIS2.001/2009.10.16'',
                            HttpHead ''https://n5eil01u.ecs.nsidc.org/ICEBRIDGE/ILATM1B.001/2009.10.16'',
                            HttpHead ''https://n5eil01u.ecs.nsidc.org/ICEBRIDGE/ILATM1B.002/2009.10.16'']\<rparr>)"
proof -
  have a: "ftype ex_lidar = ''lidar''" by (simp add: ex_lidar_def)
  have b: "\<not> argsRejected ex_env (defaultStopFrame ex_lidar) (files ex_world)" by code_simp
  have u1: "getFolderUrl (int_of (year ex_lidar)) (int_of (month ex_lidar)) (int_of (day ex_lidar))
      (site ex_lidar) ''lvis'' = Inr ''https://n5eil01u.ecs.nsidc.org/ICEBRIDGE/ILVIS2.001/2009.10.16''"
    by code_simp
  have u2: "getFolderUrl (int_of (year ex_lidar)) (int_of (month ex_lidar)) (int_of (day ex_lidar))
      (site ex_lidar) ''atm1'' = Inr ''https://n5eil01u.ecs.nsidc.org/ICEBRIDGE/ILATM1B.001/2009.10.16''"
    by code_simp
  have u3: "getFolderUrl (int_of (year ex_lidar)) (int_of (month ex_lidar)) (int_of (day ex_lidar))
      (site ex_lidar) ''atm2'' = Inr ''https://n5eil01u.ecs.nsidc.org/ICEBRIDGE/ILATM1B.002/2009.10.16''"
    by code_simp
  have h: "headStatus ex_env = (\<lambda>u. 404)" "\<not> zipIfAllFetched ex_lidar" "trace ex_world = []"
    by (simp_all add: ex_env_def ex_lidar_def ex_opts_def ex_world_def)
  show ?thesis
    using lidar_source_fallback [OF a b u1 u2 u3, of "''/out''"] a b h by simp
qed

subsection \<open>The matcher finds strings of the pattern\<close>









subsection \<open>The index and its parsed table\<close>





lemma writeParsed_prefix:
  "snd (writeParsed env acc ms) =
     acc @ concat (map (\<lambda>m. tableLine env m @ [newline]) (takeWhile (frameKnown env) ms))"
proof (induction ms arbitrary: acc)
  case Nil
  then show ?case by simp
next
  case (Cons m ms)
  show ?case
  proof (cases "getFrameNumberFromFilename2 env (cleanName m)")
    case (Inl e)
    then show ?thesis by (simp add: frameKnown_def Let_def)
  next
    case (Inr frame)
    with Cons.IH show ?thesis by (simp add: frameKnown_def tableLine_def Let_def)
  qed
qed


lemma split_on_nonempty: "split_on sep s \<noteq> []"
  by (induction s) (auto split: list.splits)








subsection \<open>The table and the frame range\<close>













subsection \<open>The download loop\<close>

lemma fileExists_removed [simp]: "\<not> fileExists (files (os_remove p w)) p"
  by (simp add: fileExists_def os_remove_def log_event_def)

lemma fetchOne_eq:
  "fetchOne env opts folderUrl outputFolder st filename =
     (let url = os_path_join folderUrl [filename];
          outputPath = os_path_join outputFolder [filename]
      in if wiped env opts (files (lw st)) outputPath then
           st\<lparr>lw := os_remove outputPath (lw st),
              curlCmd := curlCmd st @ [url],
              currentFileCount := currentFileCount st + 1,
              allFilesToFetch := allFilesToFetch st @ [outputPath]\<rparr>
         else if \<not> fileExists (files (lw st)) outputPath then
           st\<lparr>curlCmd := curlCmd st @ [url],
              currentFileCount := currentFileCount st + 1,
              allFilesToFetch := allFilesToFetch st @ [outputPath]\<rparr>
         else st\<lparr>allFilesToFetch := allFilesToFetch st @ [outputPath]\<rparr>)"
  by (auto simp add: fetchOne_def wiped_def Let_def)

lemma fetchOne_all [simp]:
  "allFilesToFetch (fetchOne env opts folderUrl outputFolder st filename) =
     allFilesToFetch st @ [os_path_join outputFolder [filename]]"
  by (simp add: fetchOne_eq Let_def)

lemma fetchOne_count:
  "currentFileCount st = length (curlCmd st) \<Longrightarrow>
   currentFileCount (fetchOne env opts folderUrl outputFolder st filename) =
     length (curlCmd (fetchOne env opts folderUrl outputFolder st filename))"
  by (simp add: fetchOne_eq Let_def)



lemma fetchFiles_count:
  "currentFileCount st = length (curlCmd st) \<Longrightarrow>
   currentFileCount (foldl (fetchOne env opts folderUrl outputFolder) st fns) =
     length (curlCmd (foldl (fetchOne env opts folderUrl outputFolder) st fns))"
  by (induction fns arbitrary: st) (simp_all add: fetchOne_count)


lemma runBatch_fields [simp]:
  "allFilesToFetch (runBatch env opts outputFolder st) = allFilesToFetch st"
  "curlCmd (runBatch env opts outputFolder st) = []"
  "currentFileCount (runBatch env opts outputFolder st) = 0"
  by (simp_all add: runBatch_def Let_def)






subsection \<open>The events of the loop and of the last check\<close>




lemma grows_files: "grows P w w' \<Longrightarrow> grows P w (w'\<lparr>files := f\<rparr>)"
  by (simp add: grows_def)

lemma grows_since: "grows P w w' \<Longrightarrow> trace w' = trace w @ since w w' \<and> list_all P (since w w')"
  by (auto simp add: grows_def since_def)

lemma grows_mono: "grows P w w' \<Longrightarrow> (\<And>e. P e \<Longrightarrow> Q e) \<Longrightarrow> grows Q w w'"
  unfolding grows_def list_all_iff by blast










lemma verify_skips:
  "list_all (passes env (files w)) pre \<Longrightarrow>
     verifyFetched env (pre @ rest) w = verifyFetched env rest w"
  by (induction pre) (auto simp add: passes_def)

lemma verify_all_pass:
  "list_all (passes env (files w)) ps \<Longrightarrow> verifyFetched env ps w = (Inr (), w)"
  using verify_skips [of env w ps "[]"] by simp



lemma mainRest_finish:
  assumes "indexPhase env opts folderUrl outputFolder w = (Inr u, w2)"
    and "readTable env (parsedIndexPath_of opts outputFolder) w2 = (Inr t, w3)"
  shows "mainRest env opts folderUrl outputFolder w =
     finish env (frameBounds opts t)
       (allFilesToFetch (downloadLoop env (frameBounds opts t) folderUrl outputFolder (frameDict t) w3))
       (lw (downloadLoop env (frameBounds opts t) folderUrl outputFolder (frameDict t) w3))"
  using assms by (simp add: mainRest_def Let_def)

text \<open>
  C8. Under \<open>--zip-if-all-fetched\<close>, after the download loop, \<open>main\<close> goes through
  the files to fetch in order: it raises an exception at a file that is missing or
  empty; at a file with an image extension that fails the validation it removes the
  file and raises an exception; when every file passes it returns 0. The files
  before the one that fails have passed.
\<close>

theorem post_download_validation:
  assumes zip: "zipIfAllFetched opts"
    and before: "list_all (passes env (files w)) pre"
  shows "(\<not> fileExists (files w) p \<longrightarrow>
           finish env opts (pre @ p # post) w =
             (Inl (Exception (''Cannot zip, missing file: '' @ p)), w))
   \<and> (fileExists (files w) p \<and> hasImageExtension env p \<and> \<not> validImageAt env (files w) p \<longrightarrow>
           finish env opts (pre @ p # post) w =
             (Inl (Exception (''Found an invalid image. Cannot zip. ''
                              @ ''Please rerun fetching. Will wipe the invalid image: '' @ p)),
              w\<lparr>files := (files w)(p := None), trace := trace w @ [RemoveFile p]\<rparr>))
   \<and> finish env opts pre w = (Inr 0, w)
   \<and> (indexPhase env opts folderUrl outputFolder w0 = (Inr (), w2)
        \<and> readTable env (parsedIndexPath_of opts outputFolder) w2 = (Inr t, w3) \<longrightarrow>
        mainRest env opts folderUrl outputFolder w0 =
          finish env (frameBounds opts t)
            (allFilesToFetch
               (downloadLoop env (frameBounds opts t) folderUrl outputFolder (frameDict t) w3))
            (lw (downloadLoop env (frameBounds opts t) folderUrl outputFolder (frameDict t) w3)))"
proof -
  have sk: "verifyFetched env (pre @ p # post) w = verifyFetched env (p # post) w"
    using before by (rule verify_skips)
  have 1: "\<not> fileExists (files w) p \<longrightarrow>
           finish env opts (pre @ p # post) w =
             (Inl (Exception (''Cannot zip, missing file: '' @ p)), w)"
    using zip sk by (simp add: finish_def)
  have 2: "fileExists (files w) p \<and> hasImageExtension env p \<and> \<not> validImageAt env (files w) p \<longrightarrow>
           finish env opts (pre @ p # post) w =
             (Inl (Exception (''Found an invalid image. Cannot zip. ''
                              @ ''Please rerun fetching. Will wipe the invalid image: '' @ p)),
              w\<lparr>files := (files w)(p := None), trace := trace w @ [RemoveFile p]\<rparr>)"
    using zip sk by (simp add: finish_def os_remove_def log_event_def)
  have 3: "finish env opts pre w = (Inr 0, w)"
    using zip verify_all_pass [OF before] by (simp add: finish_def)
  have 4: "indexPhase env opts folderUrl outputFolder w0 = (Inr (), w2)
        \<and> readTable env (parsedIndexPath_of opts outputFolder) w2 = (Inr t, w3) \<longrightarrow>
        mainRest env opts folderUrl outputFolder w0 =
          finish env (frameBounds opts t)
            (allFilesToFetch
               (downloadLoop env (frameBounds opts t) folderUrl outputFolder (frameDict t) w3))
            (lw (downloadLoop env (frameBounds opts t) folderUrl outputFolder (frameDict t) w3))"
    using mainRest_finish by blast
  show ?thesis by (intro conjI) (rule 1 2 3 4)+
qed

theorem post_download_validation_witness:
  "zipIfAllFetched ex_zip
   \<and> list_all (passes ex_env (files ex_files_world)) [''/out/a.JPG'']
   \<and> fst (finish ex_env ex_zip [''/out/a.JPG''] ex_files_world) = Inr 0
   \<and> fst (finish ex_env ex_zip [''/out/a.JPG'', ''/out/c.JPG'', ''/out/b.JPG''] ex_files_world) =
        Inl (Exception ''Cannot zip, missing file: /out/c.JPG'')
   \<and> fst (finish ex_env ex_zip [''/out/a.JPG'', ''/out/b.JPG'', ''/out/c.JPG''] ex_files_world) =
        Inl (Exception (''Found an invalid image. Cannot zip. ''
                        @ ''Please rerun fetching. Will wipe the invalid image: /out/b.JPG''))
   \<and> files (snd (finish ex_env ex_zip [''/out/a.JPG'', ''/out/b.JPG'', ''/out/c.JPG''] ex_files_world))
        ''/out/b.JPG'' = None"
proof -
  have z: "zipIfAllFetched ex_zip" by (simp add: ex_zip_def)
  have a: "list_all (passes ex_env (files ex_files_world)) [''/out/a.JPG'']" by code_simp
  have b: "\<not> fileExists (files ex_files_world) ''/out/c.JPG''"
    "fileExists (files ex_files_world) ''/out/b.JPG''"
    "hasImageExtension ex_env ''/out/b.JPG''"
    "\<not> validImageAt ex_env (files ex_files_world) ''/out/b.JPG''"
    by code_simp+
  show ?thesis
    using post_download_validation [OF z a, of "''/out/c.JPG''" "[''/out/b.JPG'']"]
      post_download_validation [OF z a, of "''/out/b.JPG''" "[''/out/c.JPG'']"]
      z a b
    by simp
qed

subsection \<open>The index is written once and read at most once\<close>




lemma index_kept:
  assumes "fileExists (files w) (parsedIndexPath_of opts outputFolder)" and "\<not> refetchIndex opts"
  shows "indexPhase env opts folderUrl outputFolder w = (Inr (), w)"
  using assms by (simp add: indexPhase_def refetchStep_def Let_def)


lemma readTable_world:
  "files w p \<noteq> None \<Longrightarrow> snd (readTable env p w) = log_event (ReadFile p) w"
  by (auto simp add: readTable_def split: option.splits)






lemma main_plain:
  assumes "ftype opts \<noteq> ''lidar''"
    and "\<not> argsRejected env (defaultStopFrame opts) (files w)"
    and "getFolderUrl (int_of (year opts)) (int_of (month opts)) (int_of (day opts)) (site opts)
           (ftype opts) = Inr u"
  shows "main env opts outputFolder w = mainRest env (defaultStopFrame opts) u outputFolder w"
  using assms by (simp add: main_def chooseFolder_def Let_def)

subsection \<open>Files that the downloads leave alone\<close>

















subsection \<open>Only missing files are fetched\<close>

lemma fileExists_gone [simp]: "\<not> fileExists (f(p := None)) p"
  by (simp add: fileExists_def)

lemma fetchFiles_plain:
  "\<not> zipIfAllFetched opts \<Longrightarrow>
     curlCmd (foldl (fetchOne env opts folderUrl outputFolder) st fns) =
       curlCmd st @ map (\<lambda>x. os_path_join folderUrl [x])
                      (filter (\<lambda>x. \<not> fileExists (files (lw st)) (os_path_join outputFolder [x])) fns)
     \<and> lw (foldl (fetchOne env opts folderUrl outputFolder) st fns) = lw st"
proof (induction fns arbitrary: st)
  case Nil
  then show ?case by simp
next
  case (Cons fn fns)
  let ?st = "fetchOne env opts folderUrl outputFolder st fn"
  from Cons.prems have w: "lw ?st = lw st"
    and c: "curlCmd ?st = curlCmd st @
        (if fileExists (files (lw st)) (os_path_join outputFolder [fn]) then []
         else [os_path_join folderUrl [fn]])"
    by (simp_all add: fetchOne_eq wiped_def Let_def)
  from Cons.IH [OF Cons.prems, of ?st] w c show ?case by simp
qed

text \<open>
  C2, as the claim states it, fails: under \<open>--zip-if-all-fetched\<close> an image that is
  on disk with a positive size but fails the validation is removed and downloaded
  again, and \<open>main\<close> returns 0.
\<close>

theorem redownload_counterexample:
  "fileExists (files ex_bad_image_world) ''/out/b.JPG''
   \<and> fst (main ex_redownload_env ex_zip ''/out'' ex_bad_image_world) = Inr 0
   \<and> executed (trace (snd (main ex_redownload_env ex_zip ''/out'' ex_bad_image_world))) =
       [[''https://n5eil01u.ecs.nsidc.org/ICEBRIDGE_FTP/IODMS0_DMSraw_v01/2009_AN_NASA/10162009_raw/b.JPG'']]"
proof -
  let ?u = "''https://n5eil01u.ecs.nsidc.org/ICEBRIDGE_FTP/IODMS0_DMSraw_v01/2009_AN_NASA/10162009_raw''"
  let ?o = "defaultStopFrame ex_zip"
  let ?p = "''/out/image_index.html.csv''"
  let ?t = "\<lparr>frameDict = [(1, ''b.JPG'')], firstFrame = 1, lastFrame = 1\<rparr>"
  let ?w3 = "log_event (ReadFile ?p) ex_bad_image_world"
  have a: "ftype ex_zip \<noteq> ''lidar''" by (simp add: ex_zip_def ex_opts_def)
  have b: "\<not> argsRejected ex_redownload_env ?o (files ex_bad_image_world)" by code_simp
  have c: "getFolderUrl (int_of (year ex_zip)) (int_of (month ex_zip)) (int_of (day ex_zip))
      (site ex_zip) (ftype ex_zip) = Inr ?u" by code_simp
  have m: "main ex_redownload_env ex_zip ''/out'' ex_bad_image_world =
      mainRest ex_redownload_env ?o ?u ''/out'' ex_bad_image_world"
    using a b c by (rule main_plain)
  have pp: "parsedIndexPath_of ?o ''/out'' = ?p" by code_simp
  have fe: "fileExists (files ex_bad_image_world) (parsedIndexPath_of ?o ''/out'')"
    "\<not> refetchIndex ?o" by code_simp+
  then have ix: "indexPhase ex_redownload_env ?o ?u ''/out'' ex_bad_image_world =
      (Inr (), ex_bad_image_world)" by (rule index_kept)
  have r1: "fst (readTable ex_redownload_env ?p ex_bad_image_world) = Inr ?t" by code_simp
  have "files ex_bad_image_world ?p \<noteq> None" by (simp add: ex_bad_image_world_def)
  then have r2: "snd (readTable ex_redownload_env ?p ex_bad_image_world) = ?w3"
    by (rule readTable_world)
  from r1 r2 have rt: "readTable ex_redownload_env (parsedIndexPath_of ?o ''/out'') ex_bad_image_world =
      (Inr ?t, ?w3)" unfolding pp by (simp add: prod_eq_iff)
  note mr = mainRest_finish [OF ix rt]
  have e1: "fst (finish ex_redownload_env (frameBounds ?o ?t)
       (allFilesToFetch (downloadLoop ex_redownload_env (frameBounds ?o ?t) ?u ''/out'' (frameDict ?t) ?w3))
       (lw (downloadLoop ex_redownload_env (frameBounds ?o ?t) ?u ''/out'' (frameDict ?t) ?w3))) = Inr 0"
    by code_simp
  have e2: "executed (trace (snd (finish ex_redownload_env (frameBounds ?o ?t)
       (allFilesToFetch (downloadLoop ex_redownload_env (frameBounds ?o ?t) ?u ''/out'' (frameDict ?t) ?w3))
       (lw (downloadLoop ex_redownload_env (frameBounds ?o ?t) ?u ''/out'' (frameDict ?t) ?w3))))) =
       [[''https://n5eil01u.ecs.nsidc.org/ICEBRIDGE_FTP/IODMS0_DMSraw_v01/2009_AN_NASA/10162009_raw/b.JPG'']]"
    by code_simp
  have f: "fileExists (files ex_bad_image_world) ''/out/b.JPG''" by code_simp
  show ?thesis unfolding m mr using e1 e2 f by simp
qed

text \<open>
  C2, amended. A file of a selected frame (the file of the frame and, for \<open>ortho\<close>
  and the lidar types, its \<open>.xml\<close> companion) is added to the download command if
  and only if its output path fails \<open>fileExists\<close> at the check, that is in the file
  system as the step leaves it. The file fails the check when it was missing or
  empty before the step, or when the step has removed it: under
  \<open>--zip-if-all-fetched\<close>, an image that fails the validation. A file that exists
  with a positive size and is not removed so is not downloaded again; without
  \<open>--zip-if-all-fetched\<close> nothing is removed, and the files of a frame that are added
  are those missing when the frame is reached.
\<close>

theorem fetch_only_missing:
  fixes env :: env and opts :: options and st :: loopState
    and folderUrl outputFolder filename :: string
  defines "url \<equiv> os_path_join folderUrl [filename]"
    and "outputPath \<equiv> os_path_join outputFolder [filename]"
    and "st' \<equiv> fetchOne env opts folderUrl outputFolder st filename"
  shows "curlCmd st' = curlCmd st @ (if fileExists (files (lw st')) outputPath then [] else [url])
   \<and> currentFileCount st' =
       currentFileCount st + (if fileExists (files (lw st')) outputPath then 0 else 1)
   \<and> files (lw st') =
       (if wiped env opts (files (lw st)) outputPath then (files (lw st))(outputPath := None)
        else files (lw st))
   \<and> fileExists (files (lw st')) outputPath =
       (fileExists (files (lw st)) outputPath \<and> \<not> wiped env opts (files (lw st)) outputPath)
   \<and> currFilesToFetch opts filename =
       (if ftype opts \<in> {''lvis'', ''atm1'', ''atm2'', ''ortho''} then [filename, filename @ ''.xml'']
        else [filename])
   \<and> (\<not> zipIfAllFetched opts \<longrightarrow>
        curlCmd (foldl (fetchOne env opts folderUrl outputFolder) st fns) =
          curlCmd st @ map (\<lambda>x. os_path_join folderUrl [x])
                         (filter (\<lambda>x. \<not> fileExists (files (lw st)) (os_path_join outputFolder [x]))
                            fns)
        \<and> lw (foldl (fetchOne env opts folderUrl outputFolder) st fns) = lw st)"
proof -
  have 1: "curlCmd st' = curlCmd st @ (if fileExists (files (lw st')) outputPath then [] else [url])"
    unfolding st'_def url_def outputPath_def
    by (simp add: fetchOne_eq Let_def os_remove_def log_event_def wiped_def)
  have 2: "currentFileCount st' =
       currentFileCount st + (if fileExists (files (lw st')) outputPath then 0 else 1)"
    unfolding st'_def url_def outputPath_def
    by (simp add: fetchOne_eq Let_def os_remove_def log_event_def wiped_def)
  have 3: "files (lw st') =
       (if wiped env opts (files (lw st)) outputPath then (files (lw st))(outputPath := None)
        else files (lw st))"
    unfolding st'_def url_def outputPath_def
    by (simp add: fetchOne_eq Let_def os_remove_def log_event_def)
  have 4: "fileExists (files (lw st')) outputPath =
       (fileExists (files (lw st)) outputPath \<and> \<not> wiped env opts (files (lw st)) outputPath)"
    unfolding 3 by simp
  have 5: "currFilesToFetch opts filename =
       (if ftype opts \<in> {''lvis'', ''atm1'', ''atm2'', ''ortho''} then [filename, filename @ ''.xml'']
        else [filename])"
    by (simp add: currFilesToFetch_def LIDAR_TYPES_def)
  have 6: "\<not> zipIfAllFetched opts \<longrightarrow>
        curlCmd (foldl (fetchOne env opts folderUrl outputFolder) st fns) =
          curlCmd st @ map (\<lambda>x. os_path_join folderUrl [x])
                         (filter (\<lambda>x. \<not> fileExists (files (lw st)) (os_path_join outputFolder [x]))
                            fns)
        \<and> lw (foldl (fetchOne env opts folderUrl outputFolder) st fns) = lw st"
    using fetchFiles_plain by blast
  show ?thesis by (intro conjI) (rule 1 2 3 4 5 6)+
qed

theorem fetch_only_missing_witness:
  "\<not> zipIfAllFetched ex_opts
   \<and> curlCmd (foldl (fetchOne ex_env ex_opts ''u'' ''/out'') ex_loop_start
        [''a.JPG'', ''b.JPG'', ''c.JPG'', ''d.JPG'']) = [''u/c.JPG'', ''u/d.JPG'']
   \<and> wiped ex_env ex_zip (files (lw ex_loop_start)) ''/out/b.JPG''
   \<and> curlCmd (fetchOne ex_env ex_zip ''u'' ''/out'' ex_loop_start ''b.JPG'') = [''u/b.JPG'']
   \<and> curlCmd (fetchOne ex_env ex_zip ''u'' ''/out'' ex_loop_start ''a.JPG'') = []"
proof -
  have z: "\<not> zipIfAllFetched ex_opts" by (simp add: ex_opts_def)
  have e: "map (\<lambda>x. os_path_join ''u'' [x])
      (filter (\<lambda>x. \<not> fileExists (files (lw ex_loop_start)) (os_path_join ''/out'' [x]))
         [''a.JPG'', ''b.JPG'', ''c.JPG'', ''d.JPG'']) = [''u/c.JPG'', ''u/d.JPG'']"
    "curlCmd ex_loop_start = []"
    "os_path_join ''/out'' [''b.JPG''] = ''/out/b.JPG''"
    "os_path_join ''u'' [''b.JPG''] = ''u/b.JPG''"
    "os_path_join ''/out'' [''a.JPG''] = ''/out/a.JPG''"
    "wiped ex_env ex_zip (files (lw ex_loop_start)) ''/out/b.JPG''"
    "\<not> wiped ex_env ex_zip (files (lw ex_loop_start)) ''/out/a.JPG''"
    "fileExists (files (lw ex_loop_start)) ''/out/b.JPG''"
    "fileExists (files (lw ex_loop_start)) ''/out/a.JPG''"
    by code_simp+
  show ?thesis
    using fetch_only_missing [of ex_env ex_opts "''u''" "''/out''" ex_loop_start "''a.JPG''"
        "[''a.JPG'', ''b.JPG'', ''c.JPG'', ''d.JPG'']"]
      fetch_only_missing [of ex_env ex_zip "''u''" "''/out''" ex_loop_start "''b.JPG''" "[]"]
      fetch_only_missing [of ex_env ex_zip "''u''" "''/out''" ex_loop_start "''a.JPG''" "[]"]
      z e
    by simp
qed

subsection \<open>The size of a download command\<close>

lemma frame_files_plain:
  assumes "\<not> zipIfAllFetched opts"
  shows "lw (if inFrameRange opts frame then
              (case map_of fd frame of
                 None \<Rightarrow> st
               | Some filename \<Rightarrow>
                   foldl (fetchOne env opts folderUrl outputFolder) st
                     (currFilesToFetch opts filename))
            else st) = lw st
     \<and> curlCmd (if inFrameRange opts frame then
              (case map_of fd frame of
                 None \<Rightarrow> st
               | Some filename \<Rightarrow>
                   foldl (fetchOne env opts folderUrl outputFolder) st
                     (currFilesToFetch opts filename))
            else st) =
         curlCmd st @ wanted opts folderUrl outputFolder fd (files (lw st)) frame"
  using fetchFiles_plain [OF assms, of env folderUrl outputFolder st]
  by (simp add: wanted_def split: option.splits)

lemma frame_files_count:
  assumes "currentFileCount st = length (curlCmd st)"
  shows "currentFileCount (if inFrameRange opts frame then
              (case map_of fd frame of
                 None \<Rightarrow> st
               | Some filename \<Rightarrow>
                   foldl (fetchOne env opts folderUrl outputFolder) st
                     (currFilesToFetch opts filename))
            else st) =
         length (curlCmd (if inFrameRange opts frame then
              (case map_of fd frame of
                 None \<Rightarrow> st
               | Some filename \<Rightarrow>
                   foldl (fetchOne env opts folderUrl outputFolder) st
                     (currFilesToFetch opts filename))
            else st))"
  using assms by (simp add: fetchFiles_count split: option.splits)

lemma processFrame_pending:
  assumes nz: "\<not> zipIfAllFetched opts"
    and c: "currentFileCount st = length (curlCmd st)"
    and nl: "Some frame \<noteq> lastKey"
    and small: "length (curlCmd st)
                + length (wanted opts folderUrl outputFolder fd (files (lw st)) frame)
                < MAX_IN_ONE_CALL"
  shows "lw (processFrame env opts folderUrl outputFolder fd lastKey st frame) = lw st
     \<and> curlCmd (processFrame env opts folderUrl outputFolder fd lastKey st frame) =
         curlCmd st @ wanted opts folderUrl outputFolder fd (files (lw st)) frame
     \<and> currentFileCount (processFrame env opts folderUrl outputFolder fd lastKey st frame) =
         length (curlCmd (processFrame env opts folderUrl outputFolder fd lastKey st frame))"
proof -
  define st1 where "st1 =
     (if inFrameRange opts frame then
        (case map_of fd frame of
           None \<Rightarrow> st
         | Some filename \<Rightarrow>
             foldl (fetchOne env opts folderUrl outputFolder) st (currFilesToFetch opts filename))
      else st)"
  define flush where "flush =
     ((currentFileCount st1 \<ge> MAX_IN_ONE_CALL \<or> Some frame = lastKey)
        \<and> currentFileCount st1 > 0)"
  have pf: "processFrame env opts folderUrl outputFolder fd lastKey st frame =
     (if flush then runBatch env opts outputFolder st1 else st1)"
    by (simp add: processFrame_def st1_def flush_def Let_def)
  from frame_files_plain [OF nz, where frame = frame and fd = fd and st = st and env = env
      and folderUrl = folderUrl and outputFolder = outputFolder]
  have w1: "lw st1 = lw st"
    and c1: "curlCmd st1 = curlCmd st @ wanted opts folderUrl outputFolder fd (files (lw st)) frame"
    unfolding st1_def by simp_all
  from frame_files_count [OF c, where opts = opts and frame = frame and fd = fd and env = env
      and folderUrl = folderUrl and outputFolder = outputFolder]
  have n1: "currentFileCount st1 = length (curlCmd st1)" unfolding st1_def .
  from n1 c1 small nl have "\<not> flush" by (simp add: flush_def)
  with pf have "processFrame env opts folderUrl outputFolder fd lastKey st frame = st1" by simp
  with w1 c1 n1 show ?thesis by simp
qed

lemma frames_pending:
  assumes nz: "\<not> zipIfAllFetched opts"
  shows "currentFileCount st = length (curlCmd st) \<Longrightarrow>
     \<forall>k \<in> set ks. Some k \<noteq> lastKey \<Longrightarrow>
     length (curlCmd st)
       + length (concat (map (wanted opts folderUrl outputFolder fd (files (lw st))) ks))
       < MAX_IN_ONE_CALL \<Longrightarrow>
     lw (foldl (processFrame env opts folderUrl outputFolder fd lastKey) st ks) = lw st
     \<and> curlCmd (foldl (processFrame env opts folderUrl outputFolder fd lastKey) st ks) =
         curlCmd st @ concat (map (wanted opts folderUrl outputFolder fd (files (lw st))) ks)
     \<and> currentFileCount (foldl (processFrame env opts folderUrl outputFolder fd lastKey) st ks) =
         length (curlCmd (foldl (processFrame env opts folderUrl outputFolder fd lastKey) st ks))"
proof (induction ks arbitrary: st)
  case Nil
  then show ?case by simp
next
  case (Cons k ks)
  let ?st = "processFrame env opts folderUrl outputFolder fd lastKey st k"
  have nl: "Some k \<noteq> lastKey" using Cons.prems(2) by simp
  have sm: "length (curlCmd st) + length (wanted opts folderUrl outputFolder fd (files (lw st)) k)
      < MAX_IN_ONE_CALL" using Cons.prems(3) by simp
  note pp = processFrame_pending [OF nz Cons.prems(1) nl sm, where env = env]
  have w: "lw ?st = lw st" by (rule pp [THEN conjunct1])
  have c: "curlCmd ?st = curlCmd st @ wanted opts folderUrl outputFolder fd (files (lw st)) k"
    by (rule pp [THEN conjunct2, THEN conjunct1])
  have n: "currentFileCount ?st = length (curlCmd ?st)"
    by (rule pp [THEN conjunct2, THEN conjunct2])
  have rest: "\<forall>k \<in> set ks. Some k \<noteq> lastKey" using Cons.prems(2) by simp
  have sm': "length (curlCmd ?st)
       + length (concat (map (wanted opts folderUrl outputFolder fd (files (lw ?st))) ks))
       < MAX_IN_ONE_CALL" using Cons.prems(3) w c by simp
  from Cons.IH [OF n rest sm'] w c show ?case by simp
qed

lemma processFrame_last:
  assumes nz: "\<not> zipIfAllFetched opts"
    and c: "currentFileCount st = length (curlCmd st)"
    and l: "lastKey = Some frame"
    and ne: "curlCmd st @ wanted opts folderUrl outputFolder fd (files (lw st)) frame \<noteq> []"
  shows "trace (lw (processFrame env opts folderUrl outputFolder fd lastKey st frame)) =
     trace (lw st)
     @ LogCmd (curlCmd st @ wanted opts folderUrl outputFolder fd (files (lw st)) frame)
     # (if dryRun opts then []
        else [Popen outputFolder
                (curlCmd st @ wanted opts folderUrl outputFolder fd (files (lw st)) frame)])"
proof -
  define st1 where "st1 =
     (if inFrameRange opts frame then
        (case map_of fd frame of
           None \<Rightarrow> st
         | Some filename \<Rightarrow>
             foldl (fetchOne env opts folderUrl outputFolder) st (currFilesToFetch opts filename))
      else st)"
  define flush where "flush =
     ((currentFileCount st1 \<ge> MAX_IN_ONE_CALL \<or> Some frame = lastKey)
        \<and> currentFileCount st1 > 0)"
  have pf: "processFrame env opts folderUrl outputFolder fd lastKey st frame =
     (if flush then runBatch env opts outputFolder st1 else st1)"
    by (simp add: processFrame_def st1_def flush_def Let_def)
  from frame_files_plain [OF nz, where frame = frame and fd = fd and st = st and env = env
      and folderUrl = folderUrl and outputFolder = outputFolder]
  have w1: "lw st1 = lw st"
    and c1: "curlCmd st1 = curlCmd st @ wanted opts folderUrl outputFolder fd (files (lw st)) frame"
    unfolding st1_def by simp_all
  from frame_files_count [OF c, where opts = opts and frame = frame and fd = fd and env = env
      and folderUrl = folderUrl and outputFolder = outputFolder]
  have n1: "currentFileCount st1 = length (curlCmd st1)" unfolding st1_def .
  from n1 c1 ne l have flush by (simp add: flush_def)
  with pf have "processFrame env opts folderUrl outputFolder fd lastKey st frame =
      runBatch env opts outputFolder st1" by simp
  then show ?thesis using w1 c1 by (simp add: runBatch_def Let_def log_event_def)
qed

lemma downloadLoop_single_batch:
  assumes nz: "\<not> zipIfAllFetched opts"
    and keys: "sort (map fst fd) = ks @ [k]"
    and nk: "k \<notin> set ks"
    and small: "length (concat (map (wanted opts folderUrl outputFolder fd (files w)) ks))
                < MAX_IN_ONE_CALL"
    and ne: "wanted opts folderUrl outputFolder fd (files w) k \<noteq> []"
  shows "trace (lw (downloadLoop env opts folderUrl outputFolder fd w)) =
     trace w
     @ LogCmd (concat (map (wanted opts folderUrl outputFolder fd (files w)) (ks @ [k])))
     # (if dryRun opts then []
        else [Popen outputFolder
                (concat (map (wanted opts folderUrl outputFolder fd (files w)) (ks @ [k])))])"
proof -
  let ?init = "\<lparr>lw = w, curlCmd = [], currentFileCount = 0, allFilesToFetch = []\<rparr>"
  let ?last = "Some k"
  have lk: "(if length (ks @ [k]) > 0 then Some ((ks @ [k]) ! (length (ks @ [k]) - 1)) else None)
      = ?last" by simp
  have dl: "downloadLoop env opts folderUrl outputFolder fd w =
      foldl (processFrame env opts folderUrl outputFolder fd ?last) ?init (ks @ [k])"
    by (simp add: downloadLoop_def Let_def keys)
  let ?st = "foldl (processFrame env opts folderUrl outputFolder fd ?last) ?init ks"
  have c0: "currentFileCount ?init = length (curlCmd ?init)" by simp
  have nl: "\<forall>x \<in> set ks. Some x \<noteq> ?last" using nk by auto
  have sm: "length (curlCmd ?init)
       + length (concat (map (wanted opts folderUrl outputFolder fd (files (lw ?init))) ks))
       < MAX_IN_ONE_CALL" using small by simp
  note fp = frames_pending [OF nz c0 nl sm, where env = env]
  have w: "lw ?st = w" using fp [THEN conjunct1] by simp
  have c: "curlCmd ?st = concat (map (wanted opts folderUrl outputFolder fd (files w)) ks)"
    using fp [THEN conjunct2, THEN conjunct1] by simp
  have n: "currentFileCount ?st = length (curlCmd ?st)"
    using fp by (elim conjE)
  have ne': "curlCmd ?st @ wanted opts folderUrl outputFolder fd (files (lw ?st)) k \<noteq> []"
    using ne w by simp
  from processFrame_last [OF nz n refl ne', where env = env] w c
  show ?thesis unfolding dl by simp
qed

text \<open>
  C6. The claim bounds a download command by \<open>MAX_IN_ONE_CALL\<close> URLs, as the comment
  at the constant does. The loop compares the count with the constant once for each
  frame, after the files of the frame are added, and a frame adds up to two files:
  a command can hold one URL more. At the flight of 51 ortho frames, where one file
  of the first frame is on disk, the count is 99 after 50 frames and one command
  with 101 URLs is run at the last frame.
\<close>

theorem batch_exceeds_limit:
  "MAX_IN_ONE_CALL = 100
   \<and> fst (main ex_env many_opts ''/out'' many_world) = Inr 0
   \<and> map length (executed (trace (snd (main ex_env many_opts ''/out'' many_world)))) = [101]"
proof -
  let ?u = "''https://n5eil01u.ecs.nsidc.org/ICEBRIDGE/IODMS1B.001/2009.10.16''"
  let ?o = "defaultStopFrame many_opts"
  let ?p = "''/out/ortho_index.html.csv''"
  let ?t = "\<lparr>frameDict = many_table, firstFrame = 1, lastFrame = 51\<rparr>"
  let ?w3 = "log_event (ReadFile ?p) many_world"
  let ?b = "frameBounds ?o ?t"
  let ?ks = "map int [1..<51]"
  let ?want = "wanted ?b ?u ''/out'' (frameDict ?t) (files ?w3)"
  have a: "ftype many_opts \<noteq> ''lidar''" by (simp add: many_opts_def ex_opts_def)
  have b: "\<not> argsRejected ex_env ?o (files many_world)" by code_simp
  have c: "getFolderUrl (int_of (year many_opts)) (int_of (month many_opts))
      (int_of (day many_opts)) (site many_opts) (ftype many_opts) = Inr ?u" by code_simp
  have m: "main ex_env many_opts ''/out'' many_world = mainRest ex_env ?o ?u ''/out'' many_world"
    using a b c by (rule main_plain)
  have pp: "parsedIndexPath_of ?o ''/out'' = ?p" by code_simp
  have fe: "fileExists (files many_world) (parsedIndexPath_of ?o ''/out'')"
    "\<not> refetchIndex ?o" by code_simp+
  then have ix: "indexPhase ex_env ?o ?u ''/out'' many_world = (Inr (), many_world)"
    by (rule index_kept)
  have r1: "fst (readTable ex_env ?p many_world) = Inr ?t" by code_simp
  have "files many_world ?p \<noteq> None" by (simp add: many_world_def)
  then have r2: "snd (readTable ex_env ?p many_world) = ?w3" by (rule readTable_world)
  from r1 r2 have rt: "readTable ex_env (parsedIndexPath_of ?o ''/out'') many_world = (Inr ?t, ?w3)"
    unfolding pp by (simp add: prod_eq_iff)
  note mr = mainRest_finish [OF ix rt]
  have nz: "\<not> zipIfAllFetched ?b" "\<not> dryRun ?b" by code_simp+
  have keys: "sort (map fst (frameDict ?t)) = ?ks @ [51]" by code_simp
  have nk: "(51::int) \<notin> set ?ks" by code_simp
  have l1: "map (\<lambda>k. length (?want k)) ?ks = 1 # replicate 49 2" by code_simp
  have l2: "length (?want 51) = 2" by code_simp
  have "length (concat (map ?want ?ks)) = sum_list (map (\<lambda>k. length (?want k)) ?ks)"
    by (simp add: length_concat comp_def)
  also have "\<dots> = 99" unfolding l1 by (simp add: sum_list_replicate)
  finally have n99: "length (concat (map ?want ?ks)) = 99" .
  then have small: "length (concat (map ?want ?ks)) < MAX_IN_ONE_CALL"
    by (simp add: MAX_IN_ONE_CALL_def)
  from l2 have ne: "?want 51 \<noteq> []" by auto
  from downloadLoop_single_batch [OF nz(1) keys nk small ne, where env = ex_env] nz(2)
  have tr: "trace (lw (downloadLoop ex_env ?b ?u ''/out'' (frameDict ?t) ?w3)) =
      trace ?w3 @ [LogCmd (concat (map ?want (?ks @ [51]))),
                   Popen ''/out'' (concat (map ?want (?ks @ [51])))]"
    by simp
  have len: "length (concat (map ?want (?ks @ [51]))) = 101" using n99 l2 by simp
  have fin: "finish ex_env ?b
       (allFilesToFetch (downloadLoop ex_env ?b ?u ''/out'' (frameDict ?t) ?w3))
       (lw (downloadLoop ex_env ?b ?u ''/out'' (frameDict ?t) ?w3)) =
     (Inr 0, lw (downloadLoop ex_env ?b ?u ''/out'' (frameDict ?t) ?w3))"
    using nz(1) by (simp add: finish_def)
  have ex: "executed (trace (lw (downloadLoop ex_env ?b ?u ''/out'' (frameDict ?t) ?w3))) =
      [concat (map ?want (?ks @ [51]))]"
    unfolding tr by (simp add: executed_def log_event_def many_world_def)
  have mx: "MAX_IN_ONE_CALL = 100" by (simp add: MAX_IN_ONE_CALL_def)
  show ?thesis unfolding m mr fin using ex len mx by simp
qed

end
